theory Spec2Isabelle
  imports Complex_Main
begin

section \<open>Source selection (controller/source-selection.ts)\<close>

text \<open>
  A source is either a URL string or an opaque handle (a media stream, a media source
  object or a blob); handles are compared by identity, which is modelled by a number.
\<close>

datatype src_value = StringSrc string | HandleSrc nat

text \<open>What the user writes: the type is optional.\<close>

record raw_src =
  raw_src :: src_value
  raw_type :: "string option"

text \<open>A normalized source: the type is always present.\<close>

record MediaSrc =
  src :: src_value
  type :: string

text \<open>
  The \<open>src\<close> property of the controller: a string, a handle, one source object or an
  array of source objects.
\<close>

datatype src_prop =
    PropString string
  | PropHandle nat
  | PropObject raw_src
  | PropArray "raw_src list"

fun isString :: "src_value \<Rightarrow> bool" where
  "isString (StringSrc s) = True"
| "isString (HandleSrc h) = False"

definition startsWith :: "string \<Rightarrow> string \<Rightarrow> bool" where
  "startsWith s p = (take (length p) s = p)"

text \<open>\<open>!isString(src) || src.startsWith('blob:')\<close>\<close>

fun isObjectSrc :: "src_value \<Rightarrow> bool" where
  "isObjectSrc (HandleSrc h) = True"
| "isObjectSrc (StringSrc s) = startsWith s ''blob:''"

text \<open>The callback of \<open>map\<close> in \<open>normalizeSrc\<close>.\<close>

definition normalizeEntry :: "raw_src \<Rightarrow> MediaSrc" where
  "normalizeEntry e =
     \<lparr> src = raw_src e,
       type = (case raw_type e of
                 Some t \<Rightarrow> t
               | None \<Rightarrow> if isObjectSrc (raw_src e) then ''video/object'' else ''?'') \<rparr>"

text \<open>\<open>isArray(src) ? src : [!isString(src) && 'src' in src ? src : { src }]\<close>\<close>

fun srcEntries :: "src_prop \<Rightarrow> raw_src list" where
  "srcEntries (PropArray es) = es"
| "srcEntries (PropObject e) = [e]"
| "srcEntries (PropString s) = [\<lparr> raw_src = StringSrc s, raw_type = None \<rparr>]"
| "srcEntries (PropHandle h) = [\<lparr> raw_src = HandleSrc h, raw_type = None \<rparr>]"

definition normalizeSrc :: "src_prop \<Rightarrow> MediaSrc list" where
  "normalizeSrc p = map normalizeEntry (srcEntries p)"

text \<open>
  The three loaders. Their \<open>canPlay\<close> and \<open>mediaType\<close> methods depend on tables and
  runtime probes outside this file, so the selector takes them as parameters.
\<close>

datatype loader = HLS_LOADER | VIDEO_LOADER | AUDIO_LOADER

definition loaders :: "bool \<Rightarrow> loader list" where
  "loaders preferNativeHLS =
     (if preferNativeHLS then [VIDEO_LOADER, AUDIO_LOADER, HLS_LOADER]
      else [HLS_LOADER, VIDEO_LOADER, AUDIO_LOADER])"

text \<open>
  The \<open>for (const src of sources)\<close> loop of the selection effect; the accumulator is
  the pair \<open>(newSource, newLoader)\<close>.
\<close>

fun selectLoop ::
  "(loader \<Rightarrow> MediaSrc \<Rightarrow> bool) \<Rightarrow> loader list \<Rightarrow> MediaSrc list \<Rightarrow>
   MediaSrc \<times> loader option \<Rightarrow> MediaSrc \<times> loader option" where
  "selectLoop loaderCanPlay ls [] acc = acc"
| "selectLoop loaderCanPlay ls (s # ss) acc =
     (case find (\<lambda>l. loaderCanPlay l s) ls of
        Some l \<Rightarrow> selectLoop loaderCanPlay ls ss (s, Some l)
      | None \<Rightarrow> selectLoop loaderCanPlay ls ss acc)"

definition selectSource ::
  "(loader \<Rightarrow> MediaSrc \<Rightarrow> bool) \<Rightarrow> loader list \<Rightarrow> MediaSrc list \<Rightarrow>
   MediaSrc \<times> loader option" where
  "selectSource loaderCanPlay ls sources =
     selectLoop loaderCanPlay ls sources (\<lparr> src = StringSrc '''', type = '''' \<rparr>, None)"

text \<open>What the selection effect reads.\<close>

record selection_ctx =
  store_sources :: "MediaSrc list"
  store_source :: MediaSrc
  current_loader :: "loader option"
  preferNativeHLS :: bool

text \<open>What the selection effect does, in order.\<close>

datatype selection_action =
    DispatchSourceChange MediaSrc
  | DispatchMediaTypeChange string
  | DispatchProviderChangeNull
  | LoaderPreconnect loader
  | DispatchProviderLoaderChange "loader option"
  | Tick

definition useSourceSelection ::
  "(loader \<Rightarrow> MediaSrc \<Rightarrow> bool) \<Rightarrow> (loader \<Rightarrow> MediaSrc \<Rightarrow> string) \<Rightarrow> (loader \<Rightarrow> bool) \<Rightarrow>
   selection_ctx \<Rightarrow> selection_action list" where
  "useSourceSelection loaderCanPlay loaderMediaType hasPreconnect c =
     (let (newSource, newLoader) =
            selectSource loaderCanPlay (loaders (preferNativeHLS c)) (store_sources c);
          currentSource = store_source c
      in (if src newSource \<noteq> src currentSource \<or> type newSource \<noteq> type currentSource
          then [DispatchSourceChange newSource,
                DispatchMediaTypeChange
                  (case newLoader of
                     None \<Rightarrow> ''unknown''
                   | Some l \<Rightarrow> (if loaderMediaType l newSource = '''' then ''unknown''
                               else loaderMediaType l newSource))]
          else [])
         @ (if newLoader \<noteq> current_loader c
            then [DispatchProviderChangeNull]
                 @ (case newLoader of
                      None \<Rightarrow> []
                    | Some l \<Rightarrow> if hasPreconnect l then [LoaderPreconnect l] else [])
                 @ [DispatchProviderLoaderChange newLoader]
            else [])
         @ [Tick])"

definition playable :: "(loader \<Rightarrow> MediaSrc \<Rightarrow> bool) \<Rightarrow> loader list \<Rightarrow> MediaSrc \<Rightarrow> bool" where
  "playable loaderCanPlay ls s = (\<exists>l \<in> set ls. loaderCanPlay l s)"

section \<open>JavaScript numbers\<close>

text \<open>
  The numbers the handlers compute with: a finite value, the two infinities and NaN.
  Finite arithmetic is exact here (rounding of doubles is not modelled, and the two
  zeros are one value); what is modelled is how NaN and the infinities travel through
  \<open>+\<close>, \<open>-\<close>, \<open>Math.min\<close>, \<open>Math.max\<close>, \<open>Math.abs\<close>, the comparisons and
  \<open>Number.isFinite\<close>.
\<close>

datatype jsnum = NaN | NegInf | Fin real | PosInf

fun js_add :: "jsnum \<Rightarrow> jsnum \<Rightarrow> jsnum" where
  "js_add NaN b = NaN"
| "js_add a NaN = NaN"
| "js_add (Fin a) (Fin b) = Fin (a + b)"
| "js_add PosInf NegInf = NaN"
| "js_add NegInf PosInf = NaN"
| "js_add PosInf b = PosInf"
| "js_add a PosInf = PosInf"
| "js_add NegInf b = NegInf"
| "js_add a NegInf = NegInf"

fun js_neg :: "jsnum \<Rightarrow> jsnum" where
  "js_neg NaN = NaN"
| "js_neg NegInf = PosInf"
| "js_neg (Fin a) = Fin (- a)"
| "js_neg PosInf = NegInf"

definition js_sub :: "jsnum \<Rightarrow> jsnum \<Rightarrow> jsnum" where
  "js_sub a b = js_add a (js_neg b)"

fun js_le :: "jsnum \<Rightarrow> jsnum \<Rightarrow> bool" where
  "js_le NaN b = False"
| "js_le a NaN = False"
| "js_le NegInf b = True"
| "js_le a PosInf = True"
| "js_le (Fin a) (Fin b) = (a \<le> b)"
| "js_le (Fin a) NegInf = False"
| "js_le PosInf b = False"

text \<open>\<open>a < b\<close>, \<open>a > b\<close> is \<open>js_lt b a\<close>, \<open>a >= b\<close> is \<open>js_le b a\<close>, and \<open>a === b\<close>.\<close>

definition js_lt :: "jsnum \<Rightarrow> jsnum \<Rightarrow> bool" where
  "js_lt a b = (js_le a b \<and> a \<noteq> b)"

definition js_eq :: "jsnum \<Rightarrow> jsnum \<Rightarrow> bool" where
  "js_eq a b = (a \<noteq> NaN \<and> a = b)"

definition Math_max :: "jsnum \<Rightarrow> jsnum \<Rightarrow> jsnum" where
  "Math_max a b = (if a = NaN \<or> b = NaN then NaN else if js_le a b then b else a)"

definition Math_min :: "jsnum \<Rightarrow> jsnum \<Rightarrow> jsnum" where
  "Math_min a b = (if a = NaN \<or> b = NaN then NaN else if js_le a b then a else b)"

fun Math_abs :: "jsnum \<Rightarrow> jsnum" where
  "Math_abs NaN = NaN"
| "Math_abs NegInf = PosInf"
| "Math_abs (Fin a) = Fin \<bar>a\<bar>"
| "Math_abs PosInf = PosInf"

fun isFinite :: "jsnum \<Rightarrow> bool" where
  "isFinite (Fin a) = True"
| "isFinite NaN = False"
| "isFinite NegInf = False"
| "isFinite PosInf = False"

section \<open>The media request manager\<close>

subsection \<open>Data\<close>

datatype fs_target = PreferMedia | Media | Provider

text \<open>
  The request events, one constructor for each key of \<open>eventHandlers\<close>, with the
  \<open>detail\<close> the handler reads.
\<close>

datatype request =
    StartLoading
  | MuteRequest
  | UnmuteRequest
  | PlayRequest
  | PauseRequest
  | SeekingRequest jsnum
  | SeekRequest jsnum
  | LiveEdgeRequest
  | VolumeChangeRequest jsnum
  | EnterFullscreenRequest "fs_target option"
  | ExitFullscreenRequest "fs_target option"
  | ResumeUserIdleRequest
  | PauseUserIdleRequest
  | ShowPosterRequest
  | HidePosterRequest
  | LoopRequest

record request_event =
  request :: request
  isOriginTrusted :: bool

text \<open>The keys of \<open>MediaRequestQueueRecord\<close>.\<close>

datatype queue_key =
  KLoad | KPlay | KPause | KVolume | KFullscreen | KSeeked | KSeeking | KUserIdle

text \<open>
  What can be thrown, or what a promise can reject with: the two errors this file
  creates, the \<open>TypeError\<close> of dereferencing a null provider, and whatever a provider
  or an adapter rejects with.
\<close>

datatype thrown =
    NotReadyError
  | FullscreenNotSupportedError fs_target
  | NullProviderTypeError
  | External string

text \<open>\<open>coerceToError\<close> is imported; its result is kept symbolic.\<close>

datatype coerced = CoerceToError thrown

text \<open>The events handed to the state manager with \<open>handler.handle\<close>.\<close>

datatype media_event =
    CanLoad
  | PlayFail coerced "bool option"
  | FullscreenError coerced

datatype fs_ref = PlayerFullscreen | ProviderFullscreen

text \<open>
  A fullscreen adapter as the manager sees it: two flags it reads, and how the promises
  of \<open>enter()\<close> and \<open>exit()\<close> settle (\<open>None\<close>: resolved).
\<close>

record fullscreen_adapter =
  supported :: bool
  active :: bool
  enter_outcome :: "thrown option"
  exit_outcome :: "thrown option"

text \<open>
  A provider: the three settable properties, how the promises of \<open>play()\<close> and
  \<open>pause()\<close> settle, and the optional fullscreen capability.
\<close>

record provider =
  provider_muted :: bool
  provider_volume :: jsnum
  provider_currentTime :: jsnum
  play_outcome :: "thrown option"
  pause_outcome :: "thrown option"
  provider_fullscreen :: "fullscreen_adapter option"

text \<open>The fields of the media store that the manager reads or writes.\<close>

record media_store =
  canLoad :: bool
  canPlay :: bool
  canSeek :: bool
  canFullscreen :: bool
  canLoadPoster :: "bool option"
  muted :: bool
  volume :: jsnum
  paused :: bool
  seeking :: bool
  ended :: bool
  seekableStart :: jsnum
  seekableEnd :: jsnum
  live :: bool
  liveEdge :: bool
  liveSyncPosition :: "jsnum option"
  userBehindLiveEdge :: bool
  attemptingAutoplay :: bool

text \<open>Everything done to the outside, in the order it is done.\<close>

datatype effect =
    StopPropagation request_event
  | LogRequest request_event
  | LogError string thrown
  | Handle media_event
  | ProviderSetMuted bool
  | ProviderSetVolume jsnum
  | ProviderSetCurrentTime jsnum
  | ProviderPlay
  | ProviderPause
  | OrientationLock string
  | OrientationUnlock
  | FullscreenEnter fs_ref
  | FullscreenExit fs_ref
  | RequestAnimationFrame
  | NullProviderDereference

text \<open>
  The state the manager closes over. \<open>queue\<close> is the request queue (a keyed ledger,
  last write wins); \<open>player\<close> says whether \<open>$player()\<close> is an element; \<open>dev\<close> is
  \<open>__DEV__\<close> and \<open>has_logger\<close> says whether \<open>logger\<close> is defined. The adapters change
  their own flags (\<open>active\<close>, \<open>locked\<close>) themselves; the manager only calls them, and
  the calls are recorded in \<open>trace\<close>.
\<close>

record manager =
  store :: media_store
  provider :: "provider option"
  player :: bool
  queue :: "queue_key \<Rightarrow> request_event option"
  isSeeking :: bool
  isLooping :: bool
  isReplay :: bool
  idle_paused :: bool
  fullscreen :: fullscreen_adapter
  orientation_supported :: bool
  orientation_locked :: bool
  lock_outcome :: "thrown option"
  unlock_outcome :: "thrown option"
  fullscreenOrientation :: "string option"
  dev :: bool
  has_logger :: bool
  trace :: "effect list"

type_synonym 'a result = "'a \<times> manager"

subsection \<open>Plumbing\<close>

definition emit :: "effect \<Rightarrow> manager \<Rightarrow> manager" where
  "emit e s = s\<lparr> trace := trace s @ [e] \<rparr>"

text \<open>
  Modelled from the spec: the \<open>Queue\<close> class is imported; it is a keyed ledger where
  the last write for a key wins and a key can be deleted.
\<close>

definition enqueue :: "queue_key \<Rightarrow> request_event \<Rightarrow> manager \<Rightarrow> manager" where
  "enqueue k ev s = s\<lparr> queue := (queue s)(k := Some ev) \<rparr>"

definition delete :: "queue_key \<Rightarrow> manager \<Rightarrow> manager" where
  "delete k s = s\<lparr> queue := (queue s)(k := None) \<rparr>"

text \<open>
  A step returns what it threw (\<open>None\<close>: it completed) and the state. For an async
  function the first component says how its promise settles. An \<open>await\<close> is modelled
  by continuing with the settled outcome.
\<close>

definition andThen ::
  "thrown option result \<Rightarrow> (manager \<Rightarrow> thrown option result) \<Rightarrow> thrown option result" where
  "andThen r f = (case r of (None, s) \<Rightarrow> f s | (Some e, s) \<Rightarrow> (Some e, s))"

definition tryCatch ::
  "thrown option result \<Rightarrow> (thrown \<Rightarrow> manager \<Rightarrow> thrown option result) \<Rightarrow> thrown option result" where
  "tryCatch r h = (case r of (None, s) \<Rightarrow> (None, s) | (Some e, s) \<Rightarrow> h e s)"

text \<open>\<open>$provider()!.muted = b\<close> and its siblings: a null provider is a \<open>TypeError\<close>.\<close>

definition setProviderMuted :: "bool \<Rightarrow> manager \<Rightarrow> thrown option result" where
  "setProviderMuted b s =
     (case provider s of
        None \<Rightarrow> (Some NullProviderTypeError, emit NullProviderDereference s)
      | Some p \<Rightarrow> (None, emit (ProviderSetMuted b) (s\<lparr> provider := Some (p\<lparr> provider_muted := b \<rparr>) \<rparr>)))"

definition setProviderVolume :: "jsnum \<Rightarrow> manager \<Rightarrow> thrown option result" where
  "setProviderVolume v s =
     (case provider s of
        None \<Rightarrow> (Some NullProviderTypeError, emit NullProviderDereference s)
      | Some p \<Rightarrow> (None, emit (ProviderSetVolume v) (s\<lparr> provider := Some (p\<lparr> provider_volume := v \<rparr>) \<rparr>)))"

definition setProviderCurrentTime :: "jsnum \<Rightarrow> manager \<Rightarrow> thrown option result" where
  "setProviderCurrentTime t s =
     (case provider s of
        None \<Rightarrow> (Some NullProviderTypeError, emit NullProviderDereference s)
      | Some p \<Rightarrow> (None, emit (ProviderSetCurrentTime t)
                              (s\<lparr> provider := Some (p\<lparr> provider_currentTime := t \<rparr>) \<rparr>)))"

text \<open>
  \<open>$provider()!.play()\<close>: the call itself, and separately how the promise it returned
  settles (what an \<open>await\<close> on it sees).
\<close>

definition callProviderPlay :: "manager \<Rightarrow> thrown option result" where
  "callProviderPlay s =
     (case provider s of
        None \<Rightarrow> (Some NullProviderTypeError, emit NullProviderDereference s)
      | Some p \<Rightarrow> (None, emit ProviderPlay s))"

definition settleProviderPlay :: "manager \<Rightarrow> thrown option result" where
  "settleProviderPlay s = (case provider s of None \<Rightarrow> (None, s) | Some p \<Rightarrow> (play_outcome p, s))"

definition callProviderPause :: "manager \<Rightarrow> thrown option result" where
  "callProviderPause s =
     (case provider s of
        None \<Rightarrow> (Some NullProviderTypeError, emit NullProviderDereference s)
      | Some p \<Rightarrow> (None, emit ProviderPause s))"

definition settleProviderPause :: "manager \<Rightarrow> thrown option result" where
  "settleProviderPause s = (case provider s of None \<Rightarrow> (None, s) | Some p \<Rightarrow> (pause_outcome p, s))"

definition logError :: "string \<Rightarrow> thrown \<Rightarrow> manager \<Rightarrow> manager" where
  "logError label e s = (if dev s \<and> has_logger s then emit (LogError label e) s else s)"

definition logRequest :: "request_event \<Rightarrow> manager \<Rightarrow> manager" where
  "logRequest ev s = (if dev s \<and> has_logger s then emit (LogRequest ev) s else s)"

subsection \<open>The guards\<close>

text \<open>\<open>player.state\<close> is the media store; without a player element \<open>canPlay\<close> reads as undefined.\<close>

definition throwIfNotReadyForPlayback :: "manager \<Rightarrow> thrown option result" where
  "throwIfNotReadyForPlayback s =
     (if provider s \<noteq> None \<and> player s \<and> canPlay (store s) then (None, s)
      else (Some NotReadyError, s))"

definition throwIfFullscreenNotSupported ::
  "fs_target \<Rightarrow> fullscreen_adapter option \<Rightarrow> manager \<Rightarrow> thrown option result" where
  "throwIfFullscreenNotSupported target fs s =
     (case fs of
        Some a \<Rightarrow> if supported a then (None, s) else (Some (FullscreenNotSupportedError target), s)
      | None \<Rightarrow> (Some (FullscreenNotSupportedError target), s))"

subsection \<open>The exported actions\<close>

text \<open>
  \<open>play()\<close>: the \<open>try\<close> block covers the guard, the rewind and the call of
  \<open>provider.play()\<close>; the promise of that call is returned without \<open>await\<close>, so the
  way it settles is the way \<open>play()\<close> settles, outside the \<open>catch\<close>.
\<close>

definition play :: "manager \<Rightarrow> thrown option result" where
  "play s =
     (if \<not> paused (store s) then (None, s)
      else andThen
             (tryCatch
                (andThen (throwIfNotReadyForPlayback s)
                   (\<lambda>s1. andThen
                           (if ended (store s1)
                            then setProviderCurrentTime (js_add (seekableStart (store s1)) (Fin 0.1)) s1
                            else (None, s1))
                           callProviderPlay))
                (\<lambda>error s1.
                   (Some error,
                    emit (Handle (PlayFail (CoerceToError error) (Some (attemptingAutoplay (store s1))))) s1)))
             settleProviderPlay)"

definition pause :: "manager \<Rightarrow> thrown option result" where
  "pause s =
     (if paused (store s) then (None, s)
      else andThen (throwIfNotReadyForPlayback s)
             (\<lambda>s1. andThen (callProviderPause s1) settleProviderPause))"

definition resolveFullscreen :: "fs_target \<Rightarrow> manager \<Rightarrow> fs_ref" where
  "resolveFullscreen target s =
     (if (target = PreferMedia \<and> supported (fullscreen s)) \<or> target = Media
      then PlayerFullscreen else ProviderFullscreen)"

definition fullscreenOf :: "fs_ref \<Rightarrow> manager \<Rightarrow> fullscreen_adapter option" where
  "fullscreenOf r s =
     (case r of
        PlayerFullscreen \<Rightarrow> Some (fullscreen s)
      | ProviderFullscreen \<Rightarrow> (case provider s of None \<Rightarrow> None | Some p \<Rightarrow> provider_fullscreen p))"

definition defaultTarget :: "fs_target option \<Rightarrow> fs_target" where
  "defaultTarget t = (case t of None \<Rightarrow> PreferMedia | Some x \<Rightarrow> x)"

definition enterFullscreen :: "fs_target option \<Rightarrow> manager \<Rightarrow> thrown option result" where
  "enterFullscreen t s =
     (let target = defaultTarget t;
          r = resolveFullscreen target s;
          fs = fullscreenOf r s
      in andThen (throwIfFullscreenNotSupported target fs s)
           (\<lambda>s1. case fs of
                    None \<Rightarrow> (None, s1)
                  | Some a \<Rightarrow>
                      if active a then (None, s1)
                      else andThen
                             (case fullscreenOrientation s1 of
                                Some lockType \<Rightarrow>
                                  if orientation_supported s1
                                  then (lock_outcome s1, emit (OrientationLock lockType) s1)
                                  else (None, s1)
                              | None \<Rightarrow> (None, s1))
                             (\<lambda>s2. (enter_outcome a, emit (FullscreenEnter r) s2))))"

definition exitFullscreen :: "fs_target option \<Rightarrow> manager \<Rightarrow> thrown option result" where
  "exitFullscreen t s =
     (let target = defaultTarget t;
          r = resolveFullscreen target s;
          fs = fullscreenOf r s
      in andThen (throwIfFullscreenNotSupported target fs s)
           (\<lambda>s1. case fs of
                    None \<Rightarrow> (None, s1)
                  | Some a \<Rightarrow>
                      if \<not> active a then (None, s1)
                      else andThen
                             (if orientation_locked s1
                              then (unlock_outcome s1, emit OrientationUnlock s1)
                              else (None, s1))
                             (\<lambda>s2. (exit_outcome a, emit (FullscreenExit r) s2))))"

definition seekToLiveEdge :: "manager \<Rightarrow> thrown option result" where
  "seekToLiveEdge s =
     (let s1 = s\<lparr> store := (store s)\<lparr> userBehindLiveEdge := False \<rparr> \<rparr>
      in if \<not> live (store s1) \<or> liveEdge (store s1) \<or> \<not> canSeek (store s1) then (None, s1)
         else andThen (throwIfNotReadyForPlayback s1)
                (setProviderCurrentTime
                   (case liveSyncPosition (store s1) of
                      Some pos \<Rightarrow> pos
                    | None \<Rightarrow> js_sub (seekableEnd (store s1)) (Fin 2))))"

subsection \<open>The request handlers\<close>

definition onStartLoading :: "request_event \<Rightarrow> manager \<Rightarrow> thrown option result" where
  "onStartLoading event s =
     (if canLoad (store s) then (None, s)
      else (None, emit (Handle CanLoad) (enqueue KLoad event s)))"

definition onMuteRequest :: "request_event \<Rightarrow> manager \<Rightarrow> thrown option result" where
  "onMuteRequest event s =
     (if muted (store s) then (None, s)
      else setProviderMuted True (enqueue KVolume event s))"

definition onUnmuteRequest :: "request_event \<Rightarrow> manager \<Rightarrow> thrown option result" where
  "onUnmuteRequest event s =
     (if \<not> muted (store s) then (None, s)
      else andThen (setProviderMuted False (enqueue KVolume event s))
             (\<lambda>s1. if js_eq (volume (store s1)) (Fin 0)
                    then setProviderVolume (Fin 0.25) (enqueue KVolume event s1)
                    else (None, s1)))"

definition onPlayRequest :: "request_event \<Rightarrow> manager \<Rightarrow> thrown option result" where
  "onPlayRequest event s =
     (if \<not> paused (store s) then (None, s)
      else tryCatch
             (andThen (callProviderPlay (enqueue KPlay event s)) settleProviderPlay)
             (\<lambda>e s1. (None, emit (Handle (PlayFail (CoerceToError e) None)) s1)))"

definition onPauseRequest :: "request_event \<Rightarrow> manager \<Rightarrow> thrown option result" where
  "onPauseRequest event s =
     (if paused (store s) then (None, s)
      else tryCatch
             (andThen (callProviderPause (enqueue KPause event s)) settleProviderPause)
             (\<lambda>e s1. (None, logError ''pause-fail'' e (delete KPause s1))))"

definition onSeekingRequest :: "request_event \<Rightarrow> manager \<Rightarrow> thrown option result" where
  "onSeekingRequest event s =
     (let s1 = enqueue KSeeking event s;
          s2 = s1\<lparr> store := (store s1)\<lparr> seeking := True \<rparr> \<rparr>
      in (None, s2\<lparr> isSeeking := True \<rparr>))"

definition boundTime :: "media_store \<Rightarrow> jsnum \<Rightarrow> jsnum" where
  "boundTime m t =
     Math_min (Math_max (js_add (seekableStart m) (Fin 0.1)) t) (js_sub (seekableEnd m) (Fin 0.1))"

definition onSeekRequest :: "jsnum \<Rightarrow> request_event \<Rightarrow> manager \<Rightarrow> thrown option result" where
  "onSeekRequest detail event s =
     (let s1 = (if ended (store s) then s\<lparr> isReplay := True \<rparr> else s);
          s2 = delete KSeeking (s1\<lparr> isSeeking := False \<rparr>);
          bt = boundTime (store s2) detail
      in if \<not> isFinite bt \<or> \<not> canSeek (store s2) then (None, s2)
         else andThen (setProviderCurrentTime bt (enqueue KSeeked event s2))
                (\<lambda>s3. if live (store s3) \<and> isOriginTrusted event
                          \<and> js_le (Fin 2) (Math_abs (js_sub (seekableEnd (store s3)) bt))
                       then (None, s3\<lparr> store := (store s3)\<lparr> userBehindLiveEdge := True \<rparr> \<rparr>)
                       else (None, s3)))"

definition onSeekToLiveEdgeRequest :: "request_event \<Rightarrow> manager \<Rightarrow> thrown option result" where
  "onSeekToLiveEdgeRequest event s =
     (if \<not> live (store s) \<or> liveEdge (store s) \<or> \<not> canSeek (store s) then (None, s)
      else tryCatch (seekToLiveEdge (enqueue KSeeked event s))
             (\<lambda>e s1. (None, logError ''seek to live edge fail'' e s1)))"

definition onVolumeChangeRequest :: "jsnum \<Rightarrow> request_event \<Rightarrow> manager \<Rightarrow> thrown option result" where
  "onVolumeChangeRequest detail event s =
     (if js_eq (volume (store s)) detail then (None, s)
      else andThen (setProviderVolume detail (enqueue KVolume event s))
             (\<lambda>s1. if js_lt (Fin 0) detail \<and> muted (store s1)
                    then setProviderMuted False (enqueue KVolume event s1)
                    else (None, s1)))"

definition onEnterFullscreenRequest ::
  "fs_target option \<Rightarrow> request_event \<Rightarrow> manager \<Rightarrow> thrown option result" where
  "onEnterFullscreenRequest detail event s =
     tryCatch (enterFullscreen detail (enqueue KFullscreen event s))
       (\<lambda>e s1. (None, emit (Handle (FullscreenError (CoerceToError e))) s1))"

definition onExitFullscreenRequest ::
  "fs_target option \<Rightarrow> request_event \<Rightarrow> manager \<Rightarrow> thrown option result" where
  "onExitFullscreenRequest detail event s =
     tryCatch (exitFullscreen detail (enqueue KFullscreen event s))
       (\<lambda>e s1. (None, emit (Handle (FullscreenError (CoerceToError e))) s1))"

definition onResumeIdlingRequest :: "request_event \<Rightarrow> manager \<Rightarrow> thrown option result" where
  "onResumeIdlingRequest event s = (None, (enqueue KUserIdle event s)\<lparr> idle_paused := False \<rparr>)"

definition onPauseIdlingRequest :: "request_event \<Rightarrow> manager \<Rightarrow> thrown option result" where
  "onPauseIdlingRequest event s = (None, (enqueue KUserIdle event s)\<lparr> idle_paused := True \<rparr>)"

definition onShowPosterRequest :: "request_event \<Rightarrow> manager \<Rightarrow> thrown option result" where
  "onShowPosterRequest event s = (None, s\<lparr> store := (store s)\<lparr> canLoadPoster := Some True \<rparr> \<rparr>)"

definition onHidePosterRequest :: "request_event \<Rightarrow> manager \<Rightarrow> thrown option result" where
  "onHidePosterRequest event s = (None, s\<lparr> store := (store s)\<lparr> canLoadPoster := Some False \<rparr> \<rparr>)"

text \<open>
  \<open>onLoopRequest\<close> only schedules a frame callback; \<open>loopFrame\<close> is that callback, run
  later by the browser.
\<close>

definition onLoopRequest :: "request_event \<Rightarrow> manager \<Rightarrow> thrown option result" where
  "onLoopRequest event s = (None, emit RequestAnimationFrame s)"

definition loopFrame :: "manager \<Rightarrow> thrown option result" where
  "loopFrame s =
     tryCatch (play (s\<lparr> isLooping := True, isReplay := True \<rparr>))
       (\<lambda>e s1. (None, s1\<lparr> isLooping := False, isReplay := False \<rparr>))"

subsection \<open>The shared listener\<close>

text \<open>The table \<open>eventHandlers\<close>.\<close>

fun eventHandlers :: "request \<Rightarrow> request_event \<Rightarrow> manager \<Rightarrow> thrown option result" where
  "eventHandlers StartLoading = onStartLoading"
| "eventHandlers MuteRequest = onMuteRequest"
| "eventHandlers UnmuteRequest = onUnmuteRequest"
| "eventHandlers PlayRequest = onPlayRequest"
| "eventHandlers PauseRequest = onPauseRequest"
| "eventHandlers (SeekingRequest t) = onSeekingRequest"
| "eventHandlers (SeekRequest t) = onSeekRequest t"
| "eventHandlers LiveEdgeRequest = onSeekToLiveEdgeRequest"
| "eventHandlers (VolumeChangeRequest v) = onVolumeChangeRequest v"
| "eventHandlers (EnterFullscreenRequest t) = onEnterFullscreenRequest t"
| "eventHandlers (ExitFullscreenRequest t) = onExitFullscreenRequest t"
| "eventHandlers ResumeUserIdleRequest = onResumeIdlingRequest"
| "eventHandlers PauseUserIdleRequest = onPauseIdlingRequest"
| "eventHandlers ShowPosterRequest = onShowPosterRequest"
| "eventHandlers HidePosterRequest = onHidePosterRequest"
| "eventHandlers LoopRequest = onLoopRequest"

text \<open>
  The callback given to \<open>listenEvent\<close> for every event type:
  \<open>event.stopPropagation(); if (__DEV__) logRequest(event); if (peek($provider)) handler(event)\<close>.
\<close>

definition listener :: "request_event \<Rightarrow> manager \<Rightarrow> thrown option result" where
  "listener event s =
     (let s1 = logRequest event (emit (StopPropagation event) s)
      in if provider s1 \<noteq> None then eventHandlers (request event) event s1 else (None, s1))"

text \<open>
  Modelled from the spec: the state manager is imported. The store mirrors the
  observable properties of the provider; this is the mirroring of \<open>muted\<close> and
  \<open>volume\<close> that follows the provider's volume-change event.
\<close>

definition mirrorVolume :: "manager \<Rightarrow> manager" where
  "mirrorVolume s =
     (case provider s of
        None \<Rightarrow> s
      | Some p \<Rightarrow> s\<lparr> store := (store s)\<lparr> muted := provider_muted p, volume := provider_volume p \<rparr> \<rparr>)"

subsection \<open>An invariant of the handlers\<close>

text \<open>
  A provider is attached and, when \<open>strict\<close> is set, no null provider has been
  dereferenced so far.
\<close>

definition attached :: "bool \<Rightarrow> manager \<Rightarrow> bool" where
  "attached strict s =
     (provider s \<noteq> None \<and> (strict \<longrightarrow> NullProviderDereference \<notin> set (trace s)))"

section \<open>The HLS lifecycle (providers/hls/use-hls.ts)\<close>

text \<open>
  The engine instance as the two handlers see it: its identity and whether a media
  element is attached to it.
\<close>

record hls_instance =
  instance_id :: nat
  has_media :: bool

text \<open>\<open>data.details\<close> of a level-loaded event; the playlist type may be null.\<close>

record level_details =
  details_type :: "string option"
  details_live :: bool
  totalduration :: jsnum

record error_data =
  fatal :: bool
  error_type :: string

datatype hls_effect =
    LogErrorGroup string
  | StartLoad nat
  | RecoverMediaError nat
  | Destroy nat
  | DispatchStreamTypeChange string
  | DispatchDurationChange jsnum
  | MediaDispatchCanPlay nat

text \<open>
  What the handlers close over: the published instance \<open>$instance\<close>, \<open>$store.canPlay\<close>,
  the build flag and the logger, and the calls made so far.
\<close>

record hls =
  published :: "hls_instance option"
  store_canPlay :: bool
  hls_dev :: bool
  hls_has_logger :: bool
  hls_trace :: "hls_effect list"

definition hls_emit :: "hls_effect \<Rightarrow> hls \<Rightarrow> hls" where
  "hls_emit e s = s\<lparr> hls_trace := hls_trace s @ [e] \<rparr>"

text \<open>\<open>$instance()?.m()\<close>: nothing happens without an instance.\<close>

definition onInstance :: "(nat \<Rightarrow> hls_effect) \<Rightarrow> hls \<Rightarrow> hls" where
  "onInstance m s = (case published s of None \<Rightarrow> s | Some i \<Rightarrow> hls_emit (m (instance_id i)) s)"

definition streamType :: "level_details \<Rightarrow> string" where
  "streamType d =
     (if details_live d
      then (if details_type d = Some ''EVENT'' \<and> isFinite (totalduration d)
            then ''live:dvr'' else ''live'')
      else ''on-demand'')"

datatype hls_thrown = TypeError

text \<open>
  \<open>onLevelLoaded\<close>: the two non-null assertions at its end are dereferenced, so a
  missing instance or a missing media element is a \<open>TypeError\<close> after the two dispatches.
\<close>

definition onLevelLoaded :: "level_details \<Rightarrow> hls \<Rightarrow> hls_thrown option \<times> hls" where
  "onLevelLoaded d s =
     (if store_canPlay s then (None, s)
      else let s1 = hls_emit (DispatchStreamTypeChange (streamType d)) s;
               s2 = hls_emit (DispatchDurationChange (totalduration d)) s1
           in case published s2 of
                None \<Rightarrow> (Some TypeError, s2)
              | Some i \<Rightarrow> if has_media i
                          then (None, hls_emit (MediaDispatchCanPlay (instance_id i)) s2)
                          else (Some TypeError, s2))"

definition onError :: "string \<Rightarrow> error_data \<Rightarrow> hls \<Rightarrow> hls" where
  "onError eventType data s =
     (let s1 = (if hls_dev s \<and> hls_has_logger s then hls_emit (LogErrorGroup eventType) s else s)
      in if fatal data
         then (if error_type data = ''networkError'' then onInstance StartLoad s1
               else if error_type data = ''mediaError'' then onInstance RecoverMediaError s1
               else (onInstance Destroy s1)\<lparr> published := None \<rparr>)
         else s1)"

section \<open>Example states\<close>

text \<open>
  A player whose provider has just been attached: nothing is playing, the media is not
  ready yet, and every promise of the provider and of the adapters resolves.
\<close>

definition example_store :: media_store where
  "example_store =
     \<lparr> canLoad = True, canPlay = False, canSeek = False, canFullscreen = False,
       canLoadPoster = None, muted = False, volume = Fin 1, paused = True, seeking = False,
       ended = False, seekableStart = Fin 0, seekableEnd = Fin 0, live = False,
       liveEdge = False, liveSyncPosition = None, userBehindLiveEdge = False,
       attemptingAutoplay = False \<rparr>"

definition example_adapter :: fullscreen_adapter where
  "example_adapter =
     \<lparr> supported = True, active = False, enter_outcome = None, exit_outcome = None \<rparr>"

definition example_provider :: provider where
  "example_provider =
     \<lparr> provider_muted = False, provider_volume = Fin 1, provider_currentTime = Fin 0,
       play_outcome = None, pause_outcome = None, provider_fullscreen = None \<rparr>"

definition example_manager :: manager where
  "example_manager =
     \<lparr> store = example_store, provider = Some example_provider, player = True,
       queue = (\<lambda>k. None), isSeeking = False, isLooping = False, isReplay = False,
       idle_paused = False, fullscreen = example_adapter, orientation_supported = True,
       orientation_locked = False, lock_outcome = None, unlock_outcome = None,
       fullscreenOrientation = None, dev = False, has_logger = False, trace = [] \<rparr>"

definition example_event :: "request \<Rightarrow> request_event" where
  "example_event r = \<lparr> request = r, isOriginTrusted = True \<rparr>"

definition example_hls :: hls where
  "example_hls =
     \<lparr> published = Some \<lparr> instance_id = 1, has_media = True \<rparr>, store_canPlay = False,
       hls_dev = False, hls_has_logger = False, hls_trace = [] \<rparr>"

text \<open>
  An example of loader capabilities: the HLS loader plays \<open>.m3u8\<close> sources, the video
  loader \<open>.mp4\<close> sources, the audio loader \<open>.mp3\<close> sources.
\<close>

definition endsWith :: "string \<Rightarrow> string \<Rightarrow> bool" where
  "endsWith s p = (drop (length s - length p) s = p)"

fun example_canPlay :: "loader \<Rightarrow> MediaSrc \<Rightarrow> bool" where
  "example_canPlay l m =
     (case src m of
        HandleSrc h \<Rightarrow> False
      | StringSrc s \<Rightarrow>
          (case l of
             HLS_LOADER \<Rightarrow> endsWith s ''.m3u8''
           | VIDEO_LOADER \<Rightarrow> endsWith s ''.mp4''
           | AUDIO_LOADER \<Rightarrow> endsWith s ''.mp3''))"

subsection \<open>Lemmas on the selection loop\<close>

lemma find_playable:
  "find (\<lambda>l. loaderCanPlay l s) ls = None \<longleftrightarrow> \<not> playable loaderCanPlay ls s"
  by (auto simp: playable_def find_None_iff)

lemma selectLoop_append:
  "selectLoop loaderCanPlay ls (xs @ ys) acc = selectLoop loaderCanPlay ls ys (selectLoop loaderCanPlay ls xs acc)"
  by (induction xs arbitrary: acc) (auto split: option.splits)

lemma find_Some_playable:
  "find (\<lambda>l. loaderCanPlay l s) ls = Some l \<Longrightarrow> playable loaderCanPlay ls s"
  using find_playable [of loaderCanPlay s ls] by simp

lemma selectLoop_unplayable:
  "\<forall>s \<in> set ys. \<not> playable loaderCanPlay ls s \<Longrightarrow> selectLoop loaderCanPlay ls ys acc = acc"
  by (induction ys arbitrary: acc) (auto dest: find_Some_playable split: option.splits)

lemma selectLoop_last:
  assumes "playable loaderCanPlay ls b" and "\<forall>s \<in> set ys. \<not> playable loaderCanPlay ls s"
  shows "selectLoop loaderCanPlay ls (xs @ b # ys) acc = (b, find (\<lambda>l. loaderCanPlay l b) ls)"
proof -
  from assms(1) obtain l where l: "find (\<lambda>l. loaderCanPlay l b) ls = Some l"
    using find_playable [of loaderCanPlay b ls] by (cases "find (\<lambda>l. loaderCanPlay l b) ls") auto
  have "selectLoop loaderCanPlay ls (xs @ b # ys) acc
          = selectLoop loaderCanPlay ls ys (b, Some l)"
    by (simp add: selectLoop_append l)
  also have "\<dots> = (b, Some l)"
    using assms(2) by (rule selectLoop_unplayable)
  finally show ?thesis by (simp add: l)
qed

subsection \<open>Lemmas on the clamp of a seek request\<close>

lemma clamp_above:
  assumes "js_lt e t"
  shows "Math_min (Math_max (js_add a (Fin 0.1)) t) (js_sub e (Fin 0.1)) = js_sub e (Fin 0.1)
       \<or> \<not> isFinite (Math_min (Math_max (js_add a (Fin 0.1)) t) (js_sub e (Fin 0.1)))"
  using assms
  by (cases a; cases e; cases t) (auto simp: Math_min_def Math_max_def js_sub_def js_lt_def)

lemma clamp_below:
  assumes "js_lt t a"
  shows "Math_max (js_add a (Fin 0.1)) t = js_add a (Fin 0.1)"
  using assms
  by (cases a; cases t) (auto simp: Math_max_def js_lt_def)

lemma clamp_NaN:
  "Math_min (Math_max x NaN) y = NaN"
  by (simp add: Math_min_def Math_max_def)

lemma Math_min_le:
  "js_le x y \<Longrightarrow> Math_min x y = x"
  by (cases x; cases y) (auto simp: Math_min_def)

lemma onSeekRequest_sets:
  assumes "provider s = Some p" and "canSeek (store s)" and "isFinite (boundTime (store s) t)"
  shows "provider (snd (onSeekRequest t event s))
           = Some (p\<lparr> provider_currentTime := boundTime (store s) t \<rparr>)"
  using assms
  by (simp add: onSeekRequest_def andThen_def setProviderCurrentTime_def enqueue_def
      delete_def emit_def Let_def)

lemma onSeekRequest_ignores:
  assumes "\<not> isFinite (boundTime (store s) t) \<or> \<not> canSeek (store s)"
  shows "fst (onSeekRequest t event s) = None
       \<and> provider (snd (onSeekRequest t event s)) = provider s
       \<and> trace (snd (onSeekRequest t event s)) = trace s
       \<and> queue (snd (onSeekRequest t event s)) KSeeked = queue s KSeeked"
  using assms
  by (auto simp: onSeekRequest_def delete_def Let_def)

subsection \<open>Lemmas on the handlers when a provider is attached\<close>

lemma attached_store: "attached c s \<Longrightarrow> attached c (s\<lparr> store := m \<rparr>)"
  by (simp add: attached_def)

lemma attached_enqueue: "attached c s \<Longrightarrow> attached c (enqueue k ev s)"
  by (simp add: attached_def enqueue_def)

lemma attached_delete: "attached c s \<Longrightarrow> attached c (delete k s)"
  by (simp add: attached_def delete_def)

lemma attached_emit: "attached c s \<Longrightarrow> e \<noteq> NullProviderDereference \<Longrightarrow> attached c (emit e s)"
  by (simp add: attached_def emit_def)

lemma attached_logError: "attached c s \<Longrightarrow> attached c (logError l e s)"
  by (simp add: logError_def attached_emit)

lemma attached_logRequest: "attached c s \<Longrightarrow> attached c (logRequest ev s)"
  by (simp add: logRequest_def attached_emit)

lemma attached_setProviderMuted:
  "attached c s \<Longrightarrow> fst (setProviderMuted b s) = None \<and> attached c (snd (setProviderMuted b s))"
  by (auto simp: attached_def setProviderMuted_def emit_def)

lemma attached_setProviderVolume:
  "attached c s \<Longrightarrow> fst (setProviderVolume v s) = None \<and> attached c (snd (setProviderVolume v s))"
  by (auto simp: attached_def setProviderVolume_def emit_def)

lemma attached_setProviderCurrentTime:
  "attached c s \<Longrightarrow>
   fst (setProviderCurrentTime t s) = None \<and> attached c (snd (setProviderCurrentTime t s))"
  by (auto simp: attached_def setProviderCurrentTime_def emit_def)

lemma attached_callProviderPlay:
  "attached c s \<Longrightarrow> fst (callProviderPlay s) = None \<and> attached c (snd (callProviderPlay s))"
  by (auto simp: attached_def callProviderPlay_def emit_def)

lemma attached_callProviderPause:
  "attached c s \<Longrightarrow> fst (callProviderPause s) = None \<and> attached c (snd (callProviderPause s))"
  by (auto simp: attached_def callProviderPause_def emit_def)

lemma attached_settle:
  "attached c s \<Longrightarrow> attached c (snd (settleProviderPlay s)) \<and> attached c (snd (settleProviderPause s))"
  by (auto simp: settleProviderPlay_def settleProviderPause_def split: option.splits)

lemma attached_andThen:
  assumes "attached c (snd r)" and "\<And>s'. attached c s' \<Longrightarrow> attached c (snd (f s'))"
  shows "attached c (snd (andThen r f))"
  using assms by (cases r) (auto simp: andThen_def split: option.splits)

lemma andThen_completes:
  assumes "fst r = None" and "fst (f (snd r)) = None"
  shows "fst (andThen r f) = None"
  using assms by (cases r) (auto simp: andThen_def)

lemma attached_tryCatch:
  assumes "attached c (snd r)" and "\<And>e s'. attached c s' \<Longrightarrow> attached c (snd (h e s'))"
  shows "attached c (snd (tryCatch r h))"
  using assms by (cases r) (auto simp: tryCatch_def split: option.splits)

lemma tryCatch_completes:
  assumes "\<And>e s'. fst (h e s') = None"
  shows "fst (tryCatch r h) = None"
  using assms by (cases r) (auto simp: tryCatch_def split: option.splits)

lemma attached_throwIfNotReady:
  "attached c s \<Longrightarrow> attached c (snd (throwIfNotReadyForPlayback s))"
  by (simp add: throwIfNotReadyForPlayback_def)

lemma attached_throwIfFullscreenNotSupported:
  "attached c s \<Longrightarrow> attached c (snd (throwIfFullscreenNotSupported target fs s))"
  by (simp add: throwIfFullscreenNotSupported_def split: option.splits)

lemma attached_seekToLiveEdge:
  assumes "attached c s"
  shows "attached c (snd (seekToLiveEdge s))"
proof -
  let ?s1 = "s\<lparr> store := (store s)\<lparr> userBehindLiveEdge := False \<rparr> \<rparr>"
  have a1: "attached c ?s1"
    using assms by (simp add: attached_def)
  have "attached c (snd (andThen (throwIfNotReadyForPlayback ?s1) (setProviderCurrentTime t)))" for t
    by (rule attached_andThen) (simp_all add: a1 attached_throwIfNotReady attached_setProviderCurrentTime [of c])
  then show ?thesis
    using a1 by (simp add: seekToLiveEdge_def Let_def)
qed

lemma attached_enterFullscreen:
  assumes "attached c s"
  shows "attached c (snd (enterFullscreen t s))"
  unfolding enterFullscreen_def Let_def
  by (rule attached_andThen)
     (auto simp: assms attached_throwIfFullscreenNotSupported andThen_def attached_emit
       intro!: attached_emit split: option.splits)

lemma attached_exitFullscreen:
  assumes "attached c s"
  shows "attached c (snd (exitFullscreen t s))"
  unfolding exitFullscreen_def Let_def
  by (rule attached_andThen)
     (auto simp: assms attached_throwIfFullscreenNotSupported andThen_def attached_emit
       intro!: attached_emit split: option.splits)

lemma handlers_attached:
  assumes "attached c s"
  shows "fst (eventHandlers r event s) = None \<and> attached c (snd (eventHandlers r event s))"
proof (cases r)
  case StartLoading
  then show ?thesis
    using assms by (simp add: onStartLoading_def attached_emit attached_enqueue)
next
  case MuteRequest
  then show ?thesis
    using assms by (simp add: onMuteRequest_def attached_setProviderMuted [of c] attached_enqueue)
next
  case UnmuteRequest
  have m: "fst (setProviderMuted False (enqueue KVolume event s)) = None"
    "attached c (snd (setProviderMuted False (enqueue KVolume event s)))"
    using assms by (simp_all add: attached_setProviderMuted [of c] attached_enqueue)
  have "fst (onUnmuteRequest event s) = None"
    unfolding onUnmuteRequest_def
    using m assms
    by (auto intro!: andThen_completes simp: attached_setProviderVolume [of c] attached_enqueue)
  moreover have "attached c (snd (onUnmuteRequest event s))"
    unfolding onUnmuteRequest_def
    using m assms
    by (auto intro!: attached_andThen simp: attached_setProviderVolume [of c] attached_enqueue)
  ultimately show ?thesis using UnmuteRequest by simp
next
  case PlayRequest
  have "fst (onPlayRequest event s) = None"
    unfolding onPlayRequest_def by (auto intro!: tryCatch_completes)
  moreover have "attached c (snd (onPlayRequest event s))"
    unfolding onPlayRequest_def
    using assms
    by (auto intro!: attached_tryCatch attached_andThen attached_emit
        simp: attached_callProviderPlay [of c] attached_enqueue attached_settle)
  ultimately show ?thesis using PlayRequest by simp
next
  case PauseRequest
  have "fst (onPauseRequest event s) = None"
    unfolding onPauseRequest_def by (auto intro!: tryCatch_completes)
  moreover have "attached c (snd (onPauseRequest event s))"
    unfolding onPauseRequest_def
    using assms
    by (auto intro!: attached_tryCatch attached_andThen attached_logError attached_delete
        simp: attached_callProviderPause [of c] attached_enqueue attached_settle)
  ultimately show ?thesis using PauseRequest by simp
next
  case (SeekingRequest t)
  then show ?thesis
    using assms by (simp add: onSeekingRequest_def Let_def attached_def enqueue_def)
next
  case (SeekRequest t)
  let ?s2 = "delete KSeeking ((if ended (store s) then s\<lparr> isReplay := True \<rparr> else s)\<lparr> isSeeking := False \<rparr>)"
  have a2: "attached c ?s2"
    using assms by (simp add: attached_def delete_def)
  have c: "fst (setProviderCurrentTime b (enqueue KSeeked event ?s2)) = None"
    "attached c (snd (setProviderCurrentTime b (enqueue KSeeked event ?s2)))" for b
    using a2 by (simp_all add: attached_setProviderCurrentTime [of c] attached_enqueue)
  have "fst (onSeekRequest t event s) = None"
    unfolding onSeekRequest_def Let_def
    using c by (auto intro!: andThen_completes)
  moreover have "attached c (snd (onSeekRequest t event s))"
    unfolding onSeekRequest_def Let_def
    using c a2 by (auto intro!: attached_andThen attached_store)
  ultimately show ?thesis using SeekRequest by simp
next
  case LiveEdgeRequest
  have "fst (onSeekToLiveEdgeRequest event s) = None"
    unfolding onSeekToLiveEdgeRequest_def by (auto intro!: tryCatch_completes)
  moreover have "attached c (snd (onSeekToLiveEdgeRequest event s))"
    unfolding onSeekToLiveEdgeRequest_def
    using assms
    by (auto intro!: attached_tryCatch attached_logError attached_seekToLiveEdge attached_enqueue)
  ultimately show ?thesis using LiveEdgeRequest by simp
next
  case (VolumeChangeRequest v)
  have c: "fst (setProviderVolume v (enqueue KVolume event s)) = None"
    "attached c (snd (setProviderVolume v (enqueue KVolume event s)))"
    using assms by (simp_all add: attached_setProviderVolume [of c] attached_enqueue)
  have "fst (onVolumeChangeRequest v event s) = None"
    unfolding onVolumeChangeRequest_def
    using c assms
    by (auto intro!: andThen_completes simp: attached_setProviderMuted [of c] attached_enqueue)
  moreover have "attached c (snd (onVolumeChangeRequest v event s))"
    unfolding onVolumeChangeRequest_def
    using c assms
    by (auto intro!: attached_andThen simp: attached_setProviderMuted [of c] attached_enqueue)
  ultimately show ?thesis using VolumeChangeRequest by simp
next
  case (EnterFullscreenRequest t)
  have "fst (onEnterFullscreenRequest t event s) = None"
    unfolding onEnterFullscreenRequest_def by (auto intro!: tryCatch_completes)
  moreover have "attached c (snd (onEnterFullscreenRequest t event s))"
    unfolding onEnterFullscreenRequest_def
    using assms
    by (auto intro!: attached_tryCatch attached_emit attached_enterFullscreen attached_enqueue)
  ultimately show ?thesis using EnterFullscreenRequest by simp
next
  case (ExitFullscreenRequest t)
  have "fst (onExitFullscreenRequest t event s) = None"
    unfolding onExitFullscreenRequest_def by (auto intro!: tryCatch_completes)
  moreover have "attached c (snd (onExitFullscreenRequest t event s))"
    unfolding onExitFullscreenRequest_def
    using assms
    by (auto intro!: attached_tryCatch attached_emit attached_exitFullscreen attached_enqueue)
  ultimately show ?thesis using ExitFullscreenRequest by simp
next
  case ResumeUserIdleRequest
  then show ?thesis
    using assms by (simp add: onResumeIdlingRequest_def attached_def enqueue_def)
next
  case PauseUserIdleRequest
  then show ?thesis
    using assms by (simp add: onPauseIdlingRequest_def attached_def enqueue_def)
next
  case ShowPosterRequest
  then show ?thesis
    using assms by (simp add: onShowPosterRequest_def attached_def)
next
  case HidePosterRequest
  then show ?thesis
    using assms by (simp add: onHidePosterRequest_def attached_def)
next
  case LoopRequest
  then show ?thesis
    using assms by (simp add: onLoopRequest_def attached_emit)
qed

lemma attached_play:
  assumes "attached c s"
  shows "attached c (snd (play s))"
  unfolding play_def
  using assms
  by (auto intro!: attached_andThen attached_tryCatch attached_emit
      simp: attached_throwIfNotReady attached_setProviderCurrentTime [of c]
        attached_callProviderPlay [of c] attached_settle)

lemma play_no_null_dereference:
  assumes "NullProviderDereference \<notin> set (trace s)"
  shows "NullProviderDereference \<notin> set (trace (snd (play s)))"
proof (cases "provider s")
  case None
  then have "throwIfNotReadyForPlayback s = (Some NotReadyError, s)"
    by (simp add: throwIfNotReadyForPlayback_def)
  then show ?thesis
    using assms by (simp add: play_def andThen_def tryCatch_def emit_def)
next
  case (Some p)
  then have "attached True s"
    using assms by (simp add: attached_def)
  then have "attached True (snd (play s))"
    by (rule attached_play)
  then show ?thesis by (simp add: attached_def)
qed

lemma loopFrame_trace:
  "trace (snd (loopFrame s)) = trace (snd (play (s\<lparr> isLooping := True, isReplay := True \<rparr>)))"
  by (cases "play (s\<lparr> isLooping := True, isReplay := True \<rparr>)")
     (auto simp: loopFrame_def tryCatch_def split: option.splits)

section \<open>Source normalization and selection: the claims\<close>

text \<open>
  C5. Whatever form the user's source takes, normalization gives one source per entry
  and keeps each \<open>src\<close>. A bare string gets the type \<open>"video/object"\<close> when it starts
  with \<open>"blob:"\<close> and \<open>"?"\<close> otherwise; a bare handle gets \<open>"video/object"\<close>. A source
  object, alone or in an array, keeps a supplied type; without one it gets
  \<open>"video/object"\<close> when its \<open>src\<close> is a handle or a string starting with \<open>"blob:"\<close>,
  and \<open>"?"\<close> when its \<open>src\<close> is any other string.
\<close>

theorem normalizeSrc_default_type:
  "normalizeSrc (PropString s) =
     [\<lparr> src = StringSrc s, type = (if startsWith s ''blob:'' then ''video/object'' else ''?'') \<rparr>]
   \<and> normalizeSrc (PropHandle h) = [\<lparr> src = HandleSrc h, type = ''video/object'' \<rparr>]
   \<and> normalizeSrc (PropObject e) =
       [\<lparr> src = raw_src e,
          type = (case raw_type e of
                    Some t \<Rightarrow> t
                  | None \<Rightarrow> (case raw_src e of
                               HandleSrc h' \<Rightarrow> ''video/object''
                             | StringSrc s' \<Rightarrow> if startsWith s' ''blob:'' then ''video/object''
                                              else ''?'')) \<rparr>]
   \<and> normalizeSrc (PropArray es) =
       map (\<lambda>x. \<lparr> src = raw_src x,
                  type = (case raw_type x of
                            Some t \<Rightarrow> t
                          | None \<Rightarrow> (case raw_src x of
                                       HandleSrc h' \<Rightarrow> ''video/object''
                                     | StringSrc s' \<Rightarrow> if startsWith s' ''blob:'' then ''video/object''
                                                      else ''?'')) \<rparr>) es
   \<and> length (normalizeSrc (PropArray es)) = length es
   \<and> (\<forall>i < length es.
         src (normalizeSrc (PropArray es) ! i) = raw_src (es ! i)
       \<and> (\<forall>h'. raw_type (es ! i) = None \<and> raw_src (es ! i) = HandleSrc h'
              \<longrightarrow> type (normalizeSrc (PropArray es) ! i) = ''video/object'')
       \<and> (\<forall>s'. raw_type (es ! i) = None \<and> raw_src (es ! i) = StringSrc s' \<and> startsWith s' ''blob:''
              \<longrightarrow> type (normalizeSrc (PropArray es) ! i) = ''video/object'')
       \<and> (\<forall>s'. raw_type (es ! i) = None \<and> raw_src (es ! i) = StringSrc s' \<and> \<not> startsWith s' ''blob:''
              \<longrightarrow> type (normalizeSrc (PropArray es) ! i) = ''?'')
       \<and> (\<forall>t. raw_type (es ! i) = Some t \<longrightarrow> type (normalizeSrc (PropArray es) ! i) = t))"
proof -
  have entry: "normalizeEntry x =
      \<lparr> src = raw_src x,
        type = (case raw_type x of
                  Some t \<Rightarrow> t
                | None \<Rightarrow> (case raw_src x of
                             HandleSrc h' \<Rightarrow> ''video/object''
                           | StringSrc s' \<Rightarrow> if startsWith s' ''blob:'' then ''video/object''
                                            else ''?'')) \<rparr>" for x
    by (cases "raw_src x") (simp_all add: normalizeEntry_def split: option.splits)
  have str: "normalizeSrc (PropString s) =
     [\<lparr> src = StringSrc s, type = (if startsWith s ''blob:'' then ''video/object'' else ''?'') \<rparr>]"
    by (simp add: normalizeSrc_def normalizeEntry_def)
  have hdl: "normalizeSrc (PropHandle h) = [\<lparr> src = HandleSrc h, type = ''video/object'' \<rparr>]"
    by (simp add: normalizeSrc_def normalizeEntry_def)
  have obj: "normalizeSrc (PropObject e) = [normalizeEntry e]"
    by (simp add: normalizeSrc_def)
  have arr: "normalizeSrc (PropArray es) = map normalizeEntry es"
    by (simp add: normalizeSrc_def)
  have len: "length (normalizeSrc (PropArray es)) = length es"
    by (simp add: arr)
  have idx: "src (normalizeSrc (PropArray es) ! i) = raw_src (es ! i)
       \<and> (\<forall>h'. raw_type (es ! i) = None \<and> raw_src (es ! i) = HandleSrc h'
              \<longrightarrow> type (normalizeSrc (PropArray es) ! i) = ''video/object'')
       \<and> (\<forall>s'. raw_type (es ! i) = None \<and> raw_src (es ! i) = StringSrc s' \<and> startsWith s' ''blob:''
              \<longrightarrow> type (normalizeSrc (PropArray es) ! i) = ''video/object'')
       \<and> (\<forall>s'. raw_type (es ! i) = None \<and> raw_src (es ! i) = StringSrc s' \<and> \<not> startsWith s' ''blob:''
              \<longrightarrow> type (normalizeSrc (PropArray es) ! i) = ''?'')
       \<and> (\<forall>t. raw_type (es ! i) = Some t \<longrightarrow> type (normalizeSrc (PropArray es) ! i) = t)"
    if "i < length es" for i
    using that by (simp add: arr normalizeEntry_def)
  have obj': "normalizeSrc (PropObject e) =
       [\<lparr> src = raw_src e,
          type = (case raw_type e of
                    Some t \<Rightarrow> t
                  | None \<Rightarrow> (case raw_src e of
                               HandleSrc h' \<Rightarrow> ''video/object''
                             | StringSrc s' \<Rightarrow> if startsWith s' ''blob:'' then ''video/object''
                                              else ''?'')) \<rparr>]"
    using obj entry [of e] by simp
  have arr': "normalizeSrc (PropArray es) =
       map (\<lambda>x. \<lparr> src = raw_src x,
                  type = (case raw_type x of
                            Some t \<Rightarrow> t
                          | None \<Rightarrow> (case raw_src x of
                                       HandleSrc h' \<Rightarrow> ''video/object''
                                     | StringSrc s' \<Rightarrow> if startsWith s' ''blob:'' then ''video/object''
                                                      else ''?'')) \<rparr>) es"
    unfolding arr using entry by (intro map_cong) simp_all
  have all: "\<forall>i < length es.
         src (normalizeSrc (PropArray es) ! i) = raw_src (es ! i)
       \<and> (\<forall>h'. raw_type (es ! i) = None \<and> raw_src (es ! i) = HandleSrc h'
              \<longrightarrow> type (normalizeSrc (PropArray es) ! i) = ''video/object'')
       \<and> (\<forall>s'. raw_type (es ! i) = None \<and> raw_src (es ! i) = StringSrc s' \<and> startsWith s' ''blob:''
              \<longrightarrow> type (normalizeSrc (PropArray es) ! i) = ''video/object'')
       \<and> (\<forall>s'. raw_type (es ! i) = None \<and> raw_src (es ! i) = StringSrc s' \<and> \<not> startsWith s' ''blob:''
              \<longrightarrow> type (normalizeSrc (PropArray es) ! i) = ''?'')
       \<and> (\<forall>t. raw_type (es ! i) = Some t \<longrightarrow> type (normalizeSrc (PropArray es) ! i) = t)"
    by (intro allI impI) (rule idx)
  show ?thesis
    by (intro conjI) (rule str hdl obj' arr' len all)+
qed

theorem normalizeSrc_default_type_witness:
  "normalizeSrc (PropString ''a.mp4'') = [\<lparr> src = StringSrc ''a.mp4'', type = ''?'' \<rparr>]
   \<and> normalizeSrc (PropString ''blob:abc'') = [\<lparr> src = StringSrc ''blob:abc'', type = ''video/object'' \<rparr>]
   \<and> normalizeSrc (PropHandle 7) = [\<lparr> src = HandleSrc 7, type = ''video/object'' \<rparr>]
   \<and> normalizeSrc (PropObject \<lparr> raw_src = StringSrc ''c.mp3'', raw_type = None \<rparr>)
       = [\<lparr> src = StringSrc ''c.mp3'', type = ''?'' \<rparr>]
   \<and> normalizeSrc (PropObject \<lparr> raw_src = StringSrc ''c.mp3'', raw_type = Some ''audio/mpeg'' \<rparr>)
       = [\<lparr> src = StringSrc ''c.mp3'', type = ''audio/mpeg'' \<rparr>]
   \<and> normalizeSrc (PropArray
        [\<lparr> raw_src = StringSrc ''blob:abc'', raw_type = None \<rparr>,
         \<lparr> raw_src = StringSrc ''a.mp4'', raw_type = None \<rparr>,
         \<lparr> raw_src = HandleSrc 7, raw_type = None \<rparr>,
         \<lparr> raw_src = StringSrc ''b.m3u8'', raw_type = Some ''application/x-mpegurl'' \<rparr>])
       = [\<lparr> src = StringSrc ''blob:abc'', type = ''video/object'' \<rparr>,
          \<lparr> src = StringSrc ''a.mp4'', type = ''?'' \<rparr>,
          \<lparr> src = HandleSrc 7, type = ''video/object'' \<rparr>,
          \<lparr> src = StringSrc ''b.m3u8'', type = ''application/x-mpegurl'' \<rparr>]"
proof -
  have a: "normalizeSrc (PropString ''a.mp4'') = [\<lparr> src = StringSrc ''a.mp4'', type = ''?'' \<rparr>]"
    using normalizeSrc_default_type [of "''a.mp4''"] by (simp add: startsWith_def)
  have b: "normalizeSrc (PropString ''blob:abc'')
             = [\<lparr> src = StringSrc ''blob:abc'', type = ''video/object'' \<rparr>]"
    using normalizeSrc_default_type [of "''blob:abc''"] by (simp add: startsWith_def)
  have c: "normalizeSrc (PropHandle 7) = [\<lparr> src = HandleSrc 7, type = ''video/object'' \<rparr>]"
    using normalizeSrc_default_type [of _ 7] by blast
  have d: "normalizeSrc (PropObject \<lparr> raw_src = StringSrc ''c.mp3'', raw_type = None \<rparr>)
             = [\<lparr> src = StringSrc ''c.mp3'', type = ''?'' \<rparr>]"
    using normalizeSrc_default_type [of _ _ "\<lparr> raw_src = StringSrc ''c.mp3'', raw_type = None \<rparr>"]
    by (simp add: startsWith_def)
  have e: "normalizeSrc (PropObject \<lparr> raw_src = StringSrc ''c.mp3'', raw_type = Some ''audio/mpeg'' \<rparr>)
             = [\<lparr> src = StringSrc ''c.mp3'', type = ''audio/mpeg'' \<rparr>]"
    using normalizeSrc_default_type
      [of _ _ "\<lparr> raw_src = StringSrc ''c.mp3'', raw_type = Some ''audio/mpeg'' \<rparr>"]
    by simp
  have f: "normalizeSrc (PropArray
        [\<lparr> raw_src = StringSrc ''blob:abc'', raw_type = None \<rparr>,
         \<lparr> raw_src = StringSrc ''a.mp4'', raw_type = None \<rparr>,
         \<lparr> raw_src = HandleSrc 7, raw_type = None \<rparr>,
         \<lparr> raw_src = StringSrc ''b.m3u8'', raw_type = Some ''application/x-mpegurl'' \<rparr>])
       = [\<lparr> src = StringSrc ''blob:abc'', type = ''video/object'' \<rparr>,
          \<lparr> src = StringSrc ''a.mp4'', type = ''?'' \<rparr>,
          \<lparr> src = HandleSrc 7, type = ''video/object'' \<rparr>,
          \<lparr> src = StringSrc ''b.m3u8'', type = ''application/x-mpegurl'' \<rparr>]"
    using normalizeSrc_default_type [of _ _ _
        "[\<lparr> raw_src = StringSrc ''blob:abc'', raw_type = None \<rparr>,
          \<lparr> raw_src = StringSrc ''a.mp4'', raw_type = None \<rparr>,
          \<lparr> raw_src = HandleSrc 7, raw_type = None \<rparr>,
          \<lparr> raw_src = StringSrc ''b.m3u8'', raw_type = Some ''application/x-mpegurl'' \<rparr>]"]
    by (simp add: startsWith_def)
  show ?thesis
    by (intro conjI) (rule a b c d e f)+
qed

text \<open>
  C1. The selector commits to the last playable source of the list, with the first
  loader (in preference order) that can play it: whatever precedes it, playable or
  not, does not matter. In particular, of two playable sources \<open>A\<close> then \<open>B\<close> the
  selected one is \<open>B\<close>. The effect commits the pair: it dispatches \<open>source-change\<close>
  with that source and \<open>media-type-change\<close> with that loader's media type, unless the
  store already holds a source with the same \<open>src\<close> and \<open>type\<close>; and it dispatches
  \<open>provider-change\<close> with null, runs that loader's preconnect when it has one, and
  dispatches \<open>provider-loader-change\<close> with that loader, unless that loader is the
  current one. Nothing else is dispatched.
\<close>

theorem selectSource_last_match:
  assumes "playable loaderCanPlay ls b"
    and "\<forall>s \<in> set ys. \<not> playable loaderCanPlay ls s"
  shows "selectSource loaderCanPlay ls (xs @ b # ys) = (b, find (\<lambda>l. loaderCanPlay l b) ls)
       \<and> find (\<lambda>l. loaderCanPlay l b) ls \<noteq> None
       \<and> (\<forall>a. playable loaderCanPlay ls a \<longrightarrow> fst (selectSource loaderCanPlay ls [a, b]) = b)
       \<and> (\<forall>c. store_sources c = xs @ b # ys \<and> loaders (preferNativeHLS c) = ls
              \<longrightarrow> (if src b \<noteq> src (store_source c) \<or> type b \<noteq> type (store_source c)
                   then hd (useSourceSelection loaderCanPlay loaderMediaType hasPreconnect c)
                          = DispatchSourceChange b
                   else store_source c = b
                      \<and> (\<forall>m. DispatchSourceChange m
                              \<notin> set (useSourceSelection loaderCanPlay loaderMediaType hasPreconnect c))))
       \<and> (\<forall>c l. store_sources c = xs @ b # ys \<and> loaders (preferNativeHLS c) = ls
                \<and> find (\<lambda>l. loaderCanPlay l b) ls = Some l
              \<longrightarrow> l \<in> set ls \<and> loaderCanPlay l b
                \<and> useSourceSelection loaderCanPlay loaderMediaType hasPreconnect c =
                    (if src b \<noteq> src (store_source c) \<or> type b \<noteq> type (store_source c)
                     then [DispatchSourceChange b,
                           DispatchMediaTypeChange
                             (if loaderMediaType l b = '''' then ''unknown'' else loaderMediaType l b)]
                     else [])
                    @ (if Some l \<noteq> current_loader c
                       then [DispatchProviderChangeNull]
                            @ (if hasPreconnect l then [LoaderPreconnect l] else [])
                            @ [DispatchProviderLoaderChange (Some l)]
                       else [])
                    @ [Tick]
                \<and> (if Some l \<noteq> current_loader c
                   then DispatchProviderLoaderChange (Some l)
                          \<in> set (useSourceSelection loaderCanPlay loaderMediaType hasPreconnect c)
                   else \<forall>k. DispatchProviderLoaderChange k
                          \<notin> set (useSourceSelection loaderCanPlay loaderMediaType hasPreconnect c))
                \<and> (\<forall>k. DispatchProviderLoaderChange k
                          \<in> set (useSourceSelection loaderCanPlay loaderMediaType hasPreconnect c)
                        \<longrightarrow> k = Some l))"
proof -
  let ?out = "\<lambda>c. useSourceSelection loaderCanPlay loaderMediaType hasPreconnect c"
  let ?E = "\<lambda>c. if src b \<noteq> src (store_source c) \<or> type b \<noteq> type (store_source c)
                then hd (?out c) = DispatchSourceChange b
                else store_source c = b \<and> (\<forall>m. DispatchSourceChange m \<notin> set (?out c))"
  let ?L = "\<lambda>c l. (if src b \<noteq> src (store_source c) \<or> type b \<noteq> type (store_source c)
                     then [DispatchSourceChange b,
                           DispatchMediaTypeChange
                             (if loaderMediaType l b = '''' then ''unknown'' else loaderMediaType l b)]
                     else [])
                    @ (if Some l \<noteq> current_loader c
                       then [DispatchProviderChangeNull]
                            @ (if hasPreconnect l then [LoaderPreconnect l] else [])
                            @ [DispatchProviderLoaderChange (Some l)]
                       else [])
                    @ [Tick]"
  let ?C = "\<lambda>c l. l \<in> set ls \<and> loaderCanPlay l b
                \<and> ?out c = ?L c l
                \<and> (if Some l \<noteq> current_loader c
                   then DispatchProviderLoaderChange (Some l) \<in> set (?out c)
                   else \<forall>k. DispatchProviderLoaderChange k \<notin> set (?out c))
                \<and> (\<forall>k. DispatchProviderLoaderChange k \<in> set (?out c) \<longrightarrow> k = Some l)"
  have sel: "selectSource loaderCanPlay ls (xs @ b # ys) = (b, find (\<lambda>l. loaderCanPlay l b) ls)"
    unfolding selectSource_def using assms by (rule selectLoop_last)
  have some: "find (\<lambda>l. loaderCanPlay l b) ls \<noteq> None"
    using assms(1) by (simp add: find_playable)
  have two: "fst (selectSource loaderCanPlay ls [a, b]) = b" for a
    using selectLoop_last [of loaderCanPlay ls b "[]" "[a]"] assms(1)
    by (simp add: selectSource_def del: selectLoop.simps)
  have q1: "\<forall>a. playable loaderCanPlay ls a \<longrightarrow> fst (selectSource loaderCanPlay ls [a, b]) = b"
    by (intro allI impI) (rule two)
  have eff: "?E c"
    if "store_sources c = xs @ b # ys" and "loaders (preferNativeHLS c) = ls" for c
    using that sel by (auto simp: useSourceSelection_def split: option.splits)
  have q2: "\<forall>c. store_sources c = xs @ b # ys \<and> loaders (preferNativeHLS c) = ls \<longrightarrow> ?E c"
    by (intro allI impI, elim conjE) (rule eff, assumption+)
  have commit: "?C c l"
    if c: "store_sources c = xs @ b # ys" "loaders (preferNativeHLS c) = ls"
      and l: "find (\<lambda>l. loaderCanPlay l b) ls = Some l" for c l
  proof -
    have mem: "l \<in> set ls" "loaderCanPlay l b"
      using l by (auto simp: find_Some_iff)
    have out: "?out c = ?L c l"
      using c sel l by (simp add: useSourceSelection_def)
    have yes: "DispatchProviderLoaderChange (Some l) \<in> set (?L c l)" if "Some l \<noteq> current_loader c"
      using that by simp
    have no: "DispatchProviderLoaderChange k \<notin> set (?L c l)" if "Some l = current_loader c" for k
      using that by simp
    have only: "k = Some l" if "DispatchProviderLoaderChange k \<in> set (?L c l)" for k
      using that by (auto split: if_splits)
    have third: "if Some l \<noteq> current_loader c
                 then DispatchProviderLoaderChange (Some l) \<in> set (?out c)
                 else \<forall>k. DispatchProviderLoaderChange k \<notin> set (?out c)"
      unfolding out using yes no by (cases "Some l = current_loader c") simp_all
    have fourth: "\<forall>k. DispatchProviderLoaderChange k \<in> set (?out c) \<longrightarrow> k = Some l"
      unfolding out by (intro allI impI) (rule only)
    show ?thesis
      by (intro conjI) (rule mem out third fourth)+
  qed
  have q3: "\<forall>c l. store_sources c = xs @ b # ys \<and> loaders (preferNativeHLS c) = ls
              \<and> find (\<lambda>l. loaderCanPlay l b) ls = Some l \<longrightarrow> ?C c l"
    by (intro allI impI, elim conjE) (rule commit, assumption+)
  show ?thesis
    by (intro conjI) (rule sel some q1 q2 q3)+
qed

theorem selectSource_last_match_witness:
  "selectSource example_canPlay (loaders False)
     [\<lparr> src = StringSrc ''a.mp4'', type = ''?'' \<rparr>, \<lparr> src = StringSrc ''b.m3u8'', type = ''?'' \<rparr>]
   = (\<lparr> src = StringSrc ''b.m3u8'', type = ''?'' \<rparr>, Some HLS_LOADER)
   \<and> useSourceSelection example_canPlay (\<lambda>l m. ''video'') (\<lambda>l. False)
       \<lparr> store_sources = [\<lparr> src = StringSrc ''a.mp4'', type = ''?'' \<rparr>,
                          \<lparr> src = StringSrc ''b.m3u8'', type = ''?'' \<rparr>],
         store_source = \<lparr> src = StringSrc '''', type = '''' \<rparr>,
         current_loader = None, preferNativeHLS = False \<rparr>
     = [DispatchSourceChange \<lparr> src = StringSrc ''b.m3u8'', type = ''?'' \<rparr>,
        DispatchMediaTypeChange ''video'',
        DispatchProviderChangeNull,
        DispatchProviderLoaderChange (Some HLS_LOADER),
        Tick]"
proof -
  let ?a = "\<lparr> src = StringSrc ''a.mp4'', type = ''?'' \<rparr>"
  let ?b = "\<lparr> src = StringSrc ''b.m3u8'', type = ''?'' \<rparr>"
  let ?c = "\<lparr> store_sources = [?a, ?b], store_source = \<lparr> src = StringSrc '''', type = '''' \<rparr>,
              current_loader = None, preferNativeHLS = False \<rparr>"
  have p: "playable example_canPlay (loaders False) ?b"
    by (simp add: playable_def loaders_def endsWith_def)
  have n: "\<forall>s \<in> set []. \<not> playable example_canPlay (loaders False) s"
    by simp
  note t = selectSource_last_match [OF p n, of "[?a]" "\<lambda>l m. ''video''" "\<lambda>l. False"]
  have f: "find (\<lambda>l. example_canPlay l ?b) (loaders False) = Some HLS_LOADER"
    by (simp add: loaders_def endsWith_def)
  have c1: "store_sources ?c = [?a] @ ?b # []"
    by simp
  have c2: "loaders (preferNativeHLS ?c) = loaders False"
    by simp
  have s: "selectSource example_canPlay (loaders False) [?a, ?b] = (?b, Some HLS_LOADER)"
    using t [THEN conjunct1] f by simp
  note q = t [THEN conjunct2, THEN conjunct2, THEN conjunct2, THEN conjunct2, rule_format,
      OF conjI [OF c1 conjI [OF c2 f]]]
  have e: "useSourceSelection example_canPlay (\<lambda>l m. ''video'') (\<lambda>l. False) ?c
     = [DispatchSourceChange ?b, DispatchMediaTypeChange ''video'', DispatchProviderChangeNull,
        DispatchProviderLoaderChange (Some HLS_LOADER), Tick]"
    using q [THEN conjunct2, THEN conjunct2, THEN conjunct1] by simp
  show ?thesis
    by (intro conjI) (rule s e)+
qed

section \<open>The request manager: the claims\<close>

text \<open>
  C2, as stated, fails: before can-play, \<open>pause()\<close> on a paused player returns without
  throwing, and a mute request reaches the provider.
\<close>

theorem not_ready_guard_counterexample:
  "\<not> canPlay (store example_manager)
   \<and> pause example_manager = (None, example_manager)
   \<and> provider (snd (listener (example_event MuteRequest) example_manager))
       = Some (example_provider\<lparr> provider_muted := True \<rparr>)"
  by (simp add: example_manager_def example_store_def example_provider_def example_event_def
      pause_def listener_def logRequest_def emit_def onMuteRequest_def setProviderMuted_def
      enqueue_def)

text \<open>
  C2, amended. Before can-play, none of \<open>play()\<close>, \<open>pause()\<close> and \<open>seekToLiveEdge()\<close>
  reaches the provider. Each throws the not-ready error unless its own no-op guard
  returns first: \<open>play()\<close> throws when paused (and hands a play-fail event with the
  coerced error and the autoplay flag to the state manager), \<open>pause()\<close> throws when
  not paused, \<open>seekToLiveEdge()\<close> throws when live, behind the live edge and able to seek.
\<close>

theorem not_ready_guard:
  assumes "\<not> canPlay (store s)"
  shows "play s =
           (if paused (store s)
            then (Some NotReadyError,
                  emit (Handle (PlayFail (CoerceToError NotReadyError)
                                  (Some (attemptingAutoplay (store s))))) s)
            else (None, s))
       \<and> pause s = (if paused (store s) then (None, s) else (Some NotReadyError, s))
       \<and> seekToLiveEdge s =
           (if live (store s) \<and> \<not> liveEdge (store s) \<and> canSeek (store s)
            then Some NotReadyError else None,
            s\<lparr> store := (store s)\<lparr> userBehindLiveEdge := False \<rparr> \<rparr>)
       \<and> provider (snd (play s)) = provider s
       \<and> ProviderPlay \<notin> set (trace (snd (play s))) - set (trace s)"
proof -
  have g: "throwIfNotReadyForPlayback s = (Some NotReadyError, s)"
    using assms by (simp add: throwIfNotReadyForPlayback_def)
  have p: "play s =
           (if paused (store s)
            then (Some NotReadyError,
                  emit (Handle (PlayFail (CoerceToError NotReadyError)
                                  (Some (attemptingAutoplay (store s))))) s)
            else (None, s))"
    by (simp add: play_def g andThen_def tryCatch_def)
  have q: "pause s = (if paused (store s) then (None, s) else (Some NotReadyError, s))"
    by (simp add: pause_def g andThen_def)
  have r: "seekToLiveEdge s =
           (if live (store s) \<and> \<not> liveEdge (store s) \<and> canSeek (store s)
            then Some NotReadyError else None,
            s\<lparr> store := (store s)\<lparr> userBehindLiveEdge := False \<rparr> \<rparr>)"
    using assms by (auto simp: seekToLiveEdge_def throwIfNotReadyForPlayback_def andThen_def Let_def)
  have u: "provider (snd (play s)) = provider s"
    by (simp add: p emit_def)
  have v: "ProviderPlay \<notin> set (trace (snd (play s))) - set (trace s)"
    by (simp add: p emit_def)
  show ?thesis using p q r u v by blast
qed

theorem not_ready_guard_witness:
  "\<not> canPlay (store example_manager)
   \<and> play example_manager =
       (Some NotReadyError,
        example_manager\<lparr> trace := [Handle (PlayFail (CoerceToError NotReadyError) (Some False))] \<rparr>)
   \<and> pause (example_manager\<lparr> store := example_store\<lparr> paused := False \<rparr> \<rparr>) =
       (Some NotReadyError, example_manager\<lparr> store := example_store\<lparr> paused := False \<rparr> \<rparr>)"
proof -
  let ?s = "example_manager\<lparr> store := example_store\<lparr> paused := False \<rparr> \<rparr>"
  have h: "\<not> canPlay (store example_manager)"
    by (simp add: example_manager_def example_store_def)
  have h': "\<not> canPlay (store ?s)" "\<not> paused (store ?s)"
    by (simp_all add: example_store_def)
  have a: "play example_manager =
       (Some NotReadyError,
        example_manager\<lparr> trace := [Handle (PlayFail (CoerceToError NotReadyError) (Some False))] \<rparr>)"
    using not_ready_guard [OF h]
    by (simp add: example_manager_def example_store_def emit_def)
  have b: "pause ?s = (Some NotReadyError, ?s)"
    using not_ready_guard [OF h'(1)] h'(2) by simp
  show ?thesis using h a b by simp
qed

text \<open>
  C6. An unmute request while the store is muted unmutes the provider and, when the
  store's volume is exactly 0, also sets the provider's volume to 0.25; while not
  muted it changes nothing. Hence a mute request followed by an unmute request, from
  volume 0 and with the store mirroring the provider after each, ends with volume
  0.25 and not muted.
\<close>

theorem unmute_restores_volume:
  assumes "provider s = Some p"
  shows "(muted (store s) \<longrightarrow>
            fst (onUnmuteRequest event s) = None
          \<and> provider (snd (onUnmuteRequest event s)) =
              Some (p\<lparr> provider_muted := False,
                       provider_volume := (if volume (store s) = Fin 0 then Fin 0.25
                                           else provider_volume p) \<rparr>)
          \<and> store (snd (onUnmuteRequest event s)) = store s
          \<and> queue (snd (onUnmuteRequest event s)) = (queue s)(KVolume := Some event))
       \<and> (\<not> muted (store s) \<longrightarrow> onUnmuteRequest event s = (None, s))
       \<and> (\<not> muted (store s) \<and> volume (store s) = Fin 0 \<and> provider_volume p = Fin 0 \<longrightarrow>
            (let s1 = mirrorVolume (snd (onMuteRequest event1 s));
                 s2 = mirrorVolume (snd (onUnmuteRequest event2 s1))
             in volume (store s2) = Fin 0.25 \<and> \<not> muted (store s2)
              \<and> provider s2 = Some (p\<lparr> provider_muted := False, provider_volume := Fin 0.25 \<rparr>)))"
proof -
  have a: "fst (onUnmuteRequest event s) = None
          \<and> provider (snd (onUnmuteRequest event s)) =
              Some (p\<lparr> provider_muted := False,
                       provider_volume := (if volume (store s) = Fin 0 then Fin 0.25
                                           else provider_volume p) \<rparr>)
          \<and> store (snd (onUnmuteRequest event s)) = store s
          \<and> queue (snd (onUnmuteRequest event s)) = (queue s)(KVolume := Some event)"
    if "muted (store s)"
    using that assms
    by (simp add: onUnmuteRequest_def andThen_def setProviderMuted_def setProviderVolume_def
        enqueue_def emit_def js_eq_def)
  have b: "onUnmuteRequest event s = (None, s)" if "\<not> muted (store s)"
    using that by (simp add: onUnmuteRequest_def)
  have c: "(let s1 = mirrorVolume (snd (onMuteRequest event1 s));
                s2 = mirrorVolume (snd (onUnmuteRequest event2 s1))
            in volume (store s2) = Fin 0.25 \<and> \<not> muted (store s2)
             \<and> provider s2 = Some (p\<lparr> provider_muted := False, provider_volume := Fin 0.25 \<rparr>))"
    if "\<not> muted (store s)" and "volume (store s) = Fin 0" and "provider_volume p = Fin 0"
    using that assms
    by (simp add: onMuteRequest_def onUnmuteRequest_def andThen_def setProviderMuted_def
        setProviderVolume_def enqueue_def emit_def js_eq_def mirrorVolume_def Let_def)
  show ?thesis using a b c by blast
qed

theorem unmute_restores_volume_witness:
  "(let s0 = example_manager\<lparr> store := example_store\<lparr> volume := Fin 0 \<rparr>,
                             provider := Some (example_provider\<lparr> provider_volume := Fin 0 \<rparr>) \<rparr>;
        s1 = mirrorVolume (snd (onMuteRequest (example_event MuteRequest) s0));
        s2 = mirrorVolume (snd (onUnmuteRequest (example_event UnmuteRequest) s1))
    in muted (store s1) \<and> volume (store s2) = Fin 0.25 \<and> \<not> muted (store s2))"
proof -
  let ?p = "example_provider\<lparr> provider_volume := Fin 0 \<rparr>"
  let ?s0 = "example_manager\<lparr> store := example_store\<lparr> volume := Fin 0 \<rparr>, provider := Some ?p \<rparr>"
  have h: "provider ?s0 = Some ?p" by simp
  have m: "muted (store (mirrorVolume (snd (onMuteRequest (example_event MuteRequest) ?s0))))"
    by (simp add: example_manager_def example_store_def example_provider_def onMuteRequest_def
        setProviderMuted_def enqueue_def emit_def mirrorVolume_def)
  show ?thesis
    using m unmute_restores_volume [OF h, of _ "example_event MuteRequest" "example_event UnmuteRequest"]
    by (simp add: example_manager_def example_store_def example_provider_def Let_def)
qed

text \<open>
  C7, as stated, fails: the play-fail event of a rejected play request carries no
  autoplay flag.
\<close>

theorem play_request_rejection_counterexample:
  "trace (snd (onPlayRequest (example_event PlayRequest)
       (example_manager\<lparr> provider :=
          Some (example_provider\<lparr> play_outcome := Some (External ''NotAllowedError'') \<rparr>) \<rparr>)))
   = [ProviderPlay, Handle (PlayFail (CoerceToError (External ''NotAllowedError'')) None)]"
  by (simp add: example_manager_def example_store_def example_provider_def example_event_def
      onPlayRequest_def tryCatch_def andThen_def callProviderPlay_def settleProviderPlay_def
      enqueue_def emit_def)

text \<open>
  C7, amended. When the provider's \<open>play()\<close> rejects during a play request, a play-fail
  event with the coerced error and no autoplay flag is handed to the state manager,
  and the request completes. When the provider's \<open>pause()\<close> rejects during a pause
  request, nothing is handed to the state manager: the pause record is deleted from
  the queue and the error is logged (in a development build with a logger).
\<close>

theorem request_rejection:
  assumes "provider s = Some p"
  shows "(paused (store s) \<and> play_outcome p = Some e \<longrightarrow>
            onPlayRequest event s =
              (None, emit (Handle (PlayFail (CoerceToError e) None))
                       (emit ProviderPlay (enqueue KPlay event s))))
       \<and> (\<not> paused (store s) \<and> pause_outcome p = Some e \<longrightarrow>
            onPauseRequest event s =
              (None, logError ''pause-fail'' e (delete KPause (emit ProviderPause (enqueue KPause event s))))
          \<and> queue (snd (onPauseRequest event s)) KPause = None
          \<and> trace (snd (onPauseRequest event s)) =
              trace s @ [ProviderPause]
                @ (if dev s \<and> has_logger s then [LogError ''pause-fail'' e] else []))"
  using assms
  by (simp add: onPlayRequest_def onPauseRequest_def tryCatch_def andThen_def
      callProviderPlay_def settleProviderPlay_def callProviderPause_def settleProviderPause_def
      enqueue_def delete_def emit_def logError_def)

theorem request_rejection_witness:
  "trace (snd (onPauseRequest (example_event PauseRequest)
       (example_manager
          \<lparr> store := example_store\<lparr> paused := False \<rparr>,
            provider := Some (example_provider\<lparr> pause_outcome := Some (External ''failed'') \<rparr>),
            dev := True, has_logger := True \<rparr>)))
     = [ProviderPause, LogError ''pause-fail'' (External ''failed'')]
   \<and> queue (snd (onPauseRequest (example_event PauseRequest)
       (example_manager
          \<lparr> store := example_store\<lparr> paused := False \<rparr>,
            provider := Some (example_provider\<lparr> pause_outcome := Some (External ''failed'') \<rparr>),
            dev := True, has_logger := True \<rparr>))) KPause = None
   \<and> trace (snd (onPlayRequest (example_event PlayRequest)
       (example_manager
          \<lparr> provider := Some (example_provider\<lparr> play_outcome := Some (External ''failed'') \<rparr>) \<rparr>)))
     = [ProviderPlay, Handle (PlayFail (CoerceToError (External ''failed'')) None)]"
proof -
  let ?p = "example_provider\<lparr> pause_outcome := Some (External ''failed'') \<rparr>"
  let ?s = "example_manager\<lparr> store := example_store\<lparr> paused := False \<rparr>, provider := Some ?p,
                             dev := True, has_logger := True \<rparr>"
  let ?ev = "example_event PauseRequest"
  have h: "provider ?s = Some ?p" by simp
  have c: "\<not> paused (store ?s) \<and> pause_outcome ?p = Some (External ''failed'')"
    by simp
  note r = request_rejection [OF h, of "External ''failed''" ?ev]
  from r c have t: "trace (snd (onPauseRequest ?ev ?s)) =
      trace ?s @ [ProviderPause]
        @ (if dev ?s \<and> has_logger ?s then [LogError ''pause-fail'' (External ''failed'')] else [])"
    by blast
  from r c have q: "queue (snd (onPauseRequest ?ev ?s)) KPause = None"
    by blast
  have e: "trace ?s = []" "dev ?s" "has_logger ?s"
    by (simp_all add: example_manager_def)
  have t': "trace (snd (onPauseRequest ?ev ?s)) = [ProviderPause, LogError ''pause-fail'' (External ''failed'')]"
    using t e by simp

  let ?p2 = "example_provider\<lparr> play_outcome := Some (External ''failed'') \<rparr>"
  let ?s2 = "example_manager\<lparr> provider := Some ?p2 \<rparr>"
  let ?ev2 = "example_event PlayRequest"
  have h2: "provider ?s2 = Some ?p2" by simp
  have c2: "paused (store ?s2) \<and> play_outcome ?p2 = Some (External ''failed'')"
    by (simp add: example_manager_def example_store_def)
  from request_rejection [OF h2, of "External ''failed''" ?ev2] c2
  have "onPlayRequest ?ev2 ?s2 =
          (None, emit (Handle (PlayFail (CoerceToError (External ''failed'')) None))
                   (emit ProviderPlay (enqueue KPlay ?ev2 ?s2)))"
    by blast
  then have t2: "trace (snd (onPlayRequest ?ev2 ?s2))
                   = [ProviderPlay, Handle (PlayFail (CoerceToError (External ''failed'')) None)]"
    by (simp add: emit_def enqueue_def example_manager_def)
  show ?thesis using t' q t2 by simp
qed

text \<open>
  C3, as stated, fails: with a seekable window narrower than 0.2 the upper bound wins.
  Here the window is \<open>[0, 0.1]\<close> and the request \<open>-1\<close> is below its start; the provider's
  current time becomes \<open>0.1 - 0.1 = 0\<close>, not \<open>0 + 0.1\<close>, having been \<open>5\<close> before.
\<close>

theorem seek_clamp_counterexample:
  "js_lt (Fin (- 1)) (Fin 0)
   \<and> provider (snd (onSeekRequest (Fin (- 1)) (example_event (SeekRequest (Fin (- 1))))
        (example_manager
           \<lparr> store := example_store\<lparr> canSeek := True, seekableStart := Fin 0,
                                       seekableEnd := Fin 0.1 \<rparr>,
             provider := Some (example_provider\<lparr> provider_currentTime := Fin 5 \<rparr>) \<rparr>)))
       = Some (example_provider\<lparr> provider_currentTime := Fin 0 \<rparr>)
   \<and> js_add (Fin 0) (Fin 0.1) = Fin 0.1"
  by (simp add: example_manager_def example_store_def example_provider_def example_event_def
      onSeekRequest_def boundTime_def Math_min_def Math_max_def js_sub_def js_lt_def
      andThen_def setProviderCurrentTime_def enqueue_def delete_def emit_def Let_def)

text \<open>
  C3, amended. A seek request sets the provider's current time to the requested time
  clamped first from below to \<open>seekableStart + 0.1\<close> and then from above to
  \<open>seekableEnd - 0.1\<close>, when that value is finite and seeking is allowed. So a request
  above \<open>seekableEnd\<close> gives \<open>seekableEnd - 0.1\<close>; a request below \<open>seekableStart\<close>
  gives the smaller of \<open>seekableStart + 0.1\<close> and \<open>seekableEnd - 0.1\<close>, which is
  \<open>seekableStart + 0.1\<close> whenever the window is at least 0.2 wide. When the clamped
  value is not finite (as for a NaN request) or seeking is not allowed, the provider
  is left as it was.
\<close>

theorem seek_request_clamps:
  assumes "provider s = Some p"
  shows "(canSeek (store s) \<and> isFinite (boundTime (store s) t) \<and> js_lt (seekableEnd (store s)) t \<longrightarrow>
            provider (snd (onSeekRequest t event s))
              = Some (p\<lparr> provider_currentTime := js_sub (seekableEnd (store s)) (Fin 0.1) \<rparr>))
       \<and> (canSeek (store s) \<and> isFinite (boundTime (store s) t) \<and> js_lt t (seekableStart (store s)) \<longrightarrow>
            provider (snd (onSeekRequest t event s))
              = Some (p\<lparr> provider_currentTime :=
                         Math_min (js_add (seekableStart (store s)) (Fin 0.1))
                                  (js_sub (seekableEnd (store s)) (Fin 0.1)) \<rparr>))
       \<and> (canSeek (store s) \<and> isFinite (boundTime (store s) t) \<and> js_lt t (seekableStart (store s))
            \<and> js_le (js_add (seekableStart (store s)) (Fin 0.1)) (js_sub (seekableEnd (store s)) (Fin 0.1)) \<longrightarrow>
            provider (snd (onSeekRequest t event s))
              = Some (p\<lparr> provider_currentTime := js_add (seekableStart (store s)) (Fin 0.1) \<rparr>))
       \<and> (\<not> isFinite (boundTime (store s) t) \<or> \<not> canSeek (store s) \<longrightarrow>
            fst (onSeekRequest t event s) = None
          \<and> provider (snd (onSeekRequest t event s)) = Some p
          \<and> trace (snd (onSeekRequest t event s)) = trace s)
       \<and> \<not> isFinite (boundTime (store s) NaN)"
proof -
  let ?m = "store s"
  let ?lo = "js_add (seekableStart ?m) (Fin 0.1)"
  let ?hi = "js_sub (seekableEnd ?m) (Fin 0.1)"
  have above: "provider (snd (onSeekRequest t event s)) = Some (p\<lparr> provider_currentTime := ?hi \<rparr>)"
    if "canSeek ?m" and f: "isFinite (boundTime ?m t)" and "js_lt (seekableEnd ?m) t"
  proof -
    have "boundTime ?m t = ?hi"
      using clamp_above [OF that(3), of "seekableStart ?m"] f by (simp add: boundTime_def)
    then show ?thesis
      using onSeekRequest_sets [OF assms that(1) f, of event] by simp
  qed
  have below: "provider (snd (onSeekRequest t event s))
                 = Some (p\<lparr> provider_currentTime := Math_min ?lo ?hi \<rparr>)"
    if "canSeek ?m" and f: "isFinite (boundTime ?m t)" and "js_lt t (seekableStart ?m)"
  proof -
    have "boundTime ?m t = Math_min ?lo ?hi"
      using clamp_below [OF that(3)] by (simp add: boundTime_def)
    then show ?thesis
      using onSeekRequest_sets [OF assms that(1) f, of event] by simp
  qed
  have wide: "provider (snd (onSeekRequest t event s)) = Some (p\<lparr> provider_currentTime := ?lo \<rparr>)"
    if "canSeek ?m" and "isFinite (boundTime ?m t)" and "js_lt t (seekableStart ?m)"
      and "js_le ?lo ?hi"
    using below [OF that(1-3)] Math_min_le [OF that(4)] by simp
  have ignored: "fst (onSeekRequest t event s) = None
          \<and> provider (snd (onSeekRequest t event s)) = Some p
          \<and> trace (snd (onSeekRequest t event s)) = trace s"
    if "\<not> isFinite (boundTime ?m t) \<or> \<not> canSeek ?m"
    using onSeekRequest_ignores [OF that, of event] assms by simp
  have nan: "\<not> isFinite (boundTime ?m NaN)"
    by (simp add: boundTime_def clamp_NaN)
  show ?thesis using above below wide ignored nan by blast
qed

theorem seek_request_clamps_witness:
  "(let p = example_provider;
        s = example_manager\<lparr> store := example_store\<lparr> canSeek := True, seekableStart := Fin 0,
                                                      seekableEnd := Fin 60 \<rparr> \<rparr>
    in provider (snd (onSeekRequest (Fin 100) (example_event (SeekRequest (Fin 100))) s))
         = Some (p\<lparr> provider_currentTime := Fin 59.9 \<rparr>)
     \<and> provider (snd (onSeekRequest (Fin (- 5)) (example_event (SeekRequest (Fin (- 5)))) s))
         = Some (p\<lparr> provider_currentTime := Fin 0.1 \<rparr>)
     \<and> provider (snd (onSeekRequest NaN (example_event (SeekRequest NaN)) s)) = Some p)"
proof -
  let ?s = "example_manager\<lparr> store := example_store\<lparr> canSeek := True, seekableStart := Fin 0,
                                                      seekableEnd := Fin 60 \<rparr> \<rparr>"
  have h: "provider ?s = Some example_provider"
    by (simp add: example_manager_def)
  have m: "canSeek (store ?s)" "seekableStart (store ?s) = Fin 0" "seekableEnd (store ?s) = Fin 60"
    by simp_all
  have b1: "boundTime (store ?s) (Fin 100) = Fin 59.9"
    and b2: "boundTime (store ?s) (Fin (- 5)) = Fin 0.1"
    and b3: "boundTime (store ?s) NaN = NaN"
    by (simp_all add: boundTime_def Math_min_def Math_max_def js_sub_def)
  have c1: "js_lt (seekableEnd (store ?s)) (Fin 100)"
    and c2: "js_lt (Fin (- 5)) (seekableStart (store ?s))"
    and c3: "js_le (js_add (seekableStart (store ?s)) (Fin 0.1)) (js_sub (seekableEnd (store ?s)) (Fin 0.1))"
    by (simp_all add: js_lt_def js_sub_def)
  have f1: "isFinite (boundTime (store ?s) (Fin 100))"
    and f2: "isFinite (boundTime (store ?s) (Fin (- 5)))"
    and f3: "\<not> isFinite (boundTime (store ?s) NaN)"
    using b1 b2 b3 by simp_all
  have "provider (snd (onSeekRequest (Fin 100) (example_event (SeekRequest (Fin 100))) ?s))
         = Some (example_provider\<lparr> provider_currentTime := js_sub (seekableEnd (store ?s)) (Fin 0.1) \<rparr>)"
    using seek_request_clamps [OF h, of "Fin 100" "example_event (SeekRequest (Fin 100))"] m(1) f1 c1
    by blast
  then have e1: "provider (snd (onSeekRequest (Fin 100) (example_event (SeekRequest (Fin 100))) ?s))
         = Some (example_provider\<lparr> provider_currentTime := Fin 59.9 \<rparr>)"
    by (simp add: js_sub_def)
  have "provider (snd (onSeekRequest (Fin (- 5)) (example_event (SeekRequest (Fin (- 5)))) ?s))
         = Some (example_provider\<lparr> provider_currentTime := js_add (seekableStart (store ?s)) (Fin 0.1) \<rparr>)"
    using seek_request_clamps [OF h, of "Fin (- 5)" "example_event (SeekRequest (Fin (- 5)))"] m(1) f2 c2 c3
    by blast
  then have e2: "provider (snd (onSeekRequest (Fin (- 5)) (example_event (SeekRequest (Fin (- 5)))) ?s))
         = Some (example_provider\<lparr> provider_currentTime := Fin 0.1 \<rparr>)"
    by simp
  have e3: "provider (snd (onSeekRequest NaN (example_event (SeekRequest NaN)) ?s)) = Some example_provider"
    using seek_request_clamps [OF h, of NaN "example_event (SeekRequest NaN)"] f3
    by blast
  show ?thesis unfolding Let_def using e1 e2 e3 by blast
qed

text \<open>
  C9. When \<open>enterFullscreen\<close> goes ahead (the resolved adapter is supported and not
  active) with an orientation preference configured and the orientation adapter
  supported, the lock is called first and \<open>enter()\<close> only after the lock has resolved;
  a rejected lock ends the call without \<open>enter()\<close>. When \<open>exitFullscreen\<close> goes ahead
  with the orientation locked, the unlock is called first and \<open>exit()\<close> only after it
  has resolved. When neither the player's nor the provider's fullscreen is supported,
  both calls throw, and the request handlers turn that into a fullscreen-error event
  for the state manager.
\<close>

theorem fullscreen_orientation_order:
  "(fullscreenOf (resolveFullscreen (defaultTarget t) s) s = Some a \<and> supported a \<and> \<not> active a
      \<and> fullscreenOrientation s = Some lockType \<and> orientation_supported s \<longrightarrow>
      enterFullscreen t s =
        (case lock_outcome s of
           None \<Rightarrow> (enter_outcome a,
                    emit (FullscreenEnter (resolveFullscreen (defaultTarget t) s))
                      (emit (OrientationLock lockType) s))
         | Some e \<Rightarrow> (Some e, emit (OrientationLock lockType) s)))
   \<and> (fullscreenOf (resolveFullscreen (defaultTarget t) s) s = Some a \<and> supported a \<and> active a
      \<and> orientation_locked s \<longrightarrow>
      exitFullscreen t s =
        (case unlock_outcome s of
           None \<Rightarrow> (exit_outcome a,
                    emit (FullscreenExit (resolveFullscreen (defaultTarget t) s))
                      (emit OrientationUnlock s))
         | Some e \<Rightarrow> (Some e, emit OrientationUnlock s)))
   \<and> (fullscreenOrientation s = Some lockType \<and> orientation_supported s \<longrightarrow>
      trace (snd (enterFullscreen t s)) = trace s
      \<or> trace (snd (enterFullscreen t s)) = trace s @ [OrientationLock lockType]
      \<or> lock_outcome s = None
        \<and> trace (snd (enterFullscreen t s))
            = trace s @ [OrientationLock lockType,
                         FullscreenEnter (resolveFullscreen (defaultTarget t) s)])
   \<and> (orientation_locked s \<longrightarrow>
      trace (snd (exitFullscreen t s)) = trace s
      \<or> trace (snd (exitFullscreen t s)) = trace s @ [OrientationUnlock]
      \<or> unlock_outcome s = None
        \<and> trace (snd (exitFullscreen t s))
            = trace s @ [OrientationUnlock,
                         FullscreenExit (resolveFullscreen (defaultTarget t) s)])
   \<and> (\<not> supported (fullscreen s)
      \<and> (\<forall>p b. provider s = Some p \<and> provider_fullscreen p = Some b \<longrightarrow> \<not> supported b) \<longrightarrow>
      enterFullscreen t s = (Some (FullscreenNotSupportedError (defaultTarget t)), s)
      \<and> exitFullscreen t s = (Some (FullscreenNotSupportedError (defaultTarget t)), s)
      \<and> onEnterFullscreenRequest t event s =
          (None, emit (Handle (FullscreenError (CoerceToError
                    (FullscreenNotSupportedError (defaultTarget t)))))
                   (enqueue KFullscreen event s))
      \<and> onExitFullscreenRequest t event s =
          (None, emit (Handle (FullscreenError (CoerceToError
                    (FullscreenNotSupportedError (defaultTarget t)))))
                   (enqueue KFullscreen event s)))"
proof -
  let ?r = "resolveFullscreen (defaultTarget t) s"
  have enter: "enterFullscreen t s =
        (case lock_outcome s of
           None \<Rightarrow> (enter_outcome a, emit (FullscreenEnter ?r) (emit (OrientationLock lockType) s))
         | Some e \<Rightarrow> (Some e, emit (OrientationLock lockType) s))"
    if "fullscreenOf ?r s = Some a" "supported a" "\<not> active a"
      "fullscreenOrientation s = Some lockType" "orientation_supported s"
    using that
    by (simp add: enterFullscreen_def throwIfFullscreenNotSupported_def andThen_def emit_def
        Let_def split: option.splits)
  have exit: "exitFullscreen t s =
        (case unlock_outcome s of
           None \<Rightarrow> (exit_outcome a, emit (FullscreenExit ?r) (emit OrientationUnlock s))
         | Some e \<Rightarrow> (Some e, emit OrientationUnlock s))"
    if "fullscreenOf ?r s = Some a" "supported a" "active a" "orientation_locked s"
    using that
    by (simp add: exitFullscreen_def throwIfFullscreenNotSupported_def andThen_def emit_def
        Let_def split: option.splits)
  have enter_trace: "trace (snd (enterFullscreen t s)) = trace s
      \<or> trace (snd (enterFullscreen t s)) = trace s @ [OrientationLock lockType]
      \<or> lock_outcome s = None
        \<and> trace (snd (enterFullscreen t s)) = trace s @ [OrientationLock lockType, FullscreenEnter ?r]"
    if "fullscreenOrientation s = Some lockType" "orientation_supported s"
    using that
    by (cases "fullscreenOf ?r s"; cases "lock_outcome s")
       (auto simp: enterFullscreen_def throwIfFullscreenNotSupported_def andThen_def emit_def Let_def)
  have exit_trace: "trace (snd (exitFullscreen t s)) = trace s
      \<or> trace (snd (exitFullscreen t s)) = trace s @ [OrientationUnlock]
      \<or> unlock_outcome s = None
        \<and> trace (snd (exitFullscreen t s)) = trace s @ [OrientationUnlock, FullscreenExit ?r]"
    if "orientation_locked s"
    using that
    by (cases "fullscreenOf ?r s"; cases "unlock_outcome s")
       (auto simp: exitFullscreen_def throwIfFullscreenNotSupported_def andThen_def emit_def Let_def)
  have unsupported: "throwIfFullscreenNotSupported (defaultTarget t) (fullscreenOf ?r s') s'
                       = (Some (FullscreenNotSupportedError (defaultTarget t)), s')"
    if "\<not> supported (fullscreen s)"
      "\<forall>p b. provider s = Some p \<and> provider_fullscreen p = Some b \<longrightarrow> \<not> supported b"
      "fullscreen s' = fullscreen s" "provider s' = provider s"
    for s'
    using that
    by (auto simp: throwIfFullscreenNotSupported_def fullscreenOf_def resolveFullscreen_def
        split: option.splits fs_ref.splits)
  have r_eq: "resolveFullscreen (defaultTarget t) (enqueue KFullscreen event s) = ?r"
    by (simp add: resolveFullscreen_def enqueue_def)
  have none: "enterFullscreen t s = (Some (FullscreenNotSupportedError (defaultTarget t)), s)
      \<and> exitFullscreen t s = (Some (FullscreenNotSupportedError (defaultTarget t)), s)
      \<and> onEnterFullscreenRequest t event s =
          (None, emit (Handle (FullscreenError (CoerceToError
                    (FullscreenNotSupportedError (defaultTarget t)))))
                   (enqueue KFullscreen event s))
      \<and> onExitFullscreenRequest t event s =
          (None, emit (Handle (FullscreenError (CoerceToError
                    (FullscreenNotSupportedError (defaultTarget t)))))
                   (enqueue KFullscreen event s))"
    if h: "\<not> supported (fullscreen s)"
      "\<forall>p b. provider s = Some p \<and> provider_fullscreen p = Some b \<longrightarrow> \<not> supported b"
  proof -
    have u1: "throwIfFullscreenNotSupported (defaultTarget t) (fullscreenOf ?r s) s
                = (Some (FullscreenNotSupportedError (defaultTarget t)), s)"
      using unsupported [OF h, of s] by simp
    have u2: "throwIfFullscreenNotSupported (defaultTarget t)
                (fullscreenOf ?r (enqueue KFullscreen event s)) (enqueue KFullscreen event s)
                = (Some (FullscreenNotSupportedError (defaultTarget t)), enqueue KFullscreen event s)"
      using unsupported [OF h, of "enqueue KFullscreen event s"] by (simp add: enqueue_def)
    show ?thesis
      by (simp add: enterFullscreen_def exitFullscreen_def onEnterFullscreenRequest_def
          onExitFullscreenRequest_def Let_def u1 u2 r_eq andThen_def tryCatch_def)
  qed
  show ?thesis using enter exit enter_trace exit_trace none by blast
qed

theorem fullscreen_orientation_order_witness:
  "fullscreenOf (resolveFullscreen (defaultTarget None)
       (example_manager\<lparr> fullscreenOrientation := Some ''landscape'' \<rparr>))
     (example_manager\<lparr> fullscreenOrientation := Some ''landscape'' \<rparr>) = Some example_adapter
   \<and> trace (snd (enterFullscreen None (example_manager\<lparr> fullscreenOrientation := Some ''landscape'' \<rparr>)))
       = [OrientationLock ''landscape'', FullscreenEnter PlayerFullscreen]
   \<and> trace (snd (exitFullscreen None
         (example_manager\<lparr> fullscreen := example_adapter\<lparr> active := True \<rparr>,
                            orientation_locked := True \<rparr>)))
       = [OrientationUnlock, FullscreenExit PlayerFullscreen]
   \<and> enterFullscreen None (example_manager\<lparr> fullscreen := example_adapter\<lparr> supported := False \<rparr> \<rparr>)
       = (Some (FullscreenNotSupportedError PreferMedia),
          example_manager\<lparr> fullscreen := example_adapter\<lparr> supported := False \<rparr> \<rparr>)"
proof -
  let ?s = "example_manager\<lparr> fullscreenOrientation := Some ''landscape'' \<rparr>"
  have r: "resolveFullscreen (defaultTarget None) ?s = PlayerFullscreen"
    by (simp add: resolveFullscreen_def defaultTarget_def example_manager_def example_adapter_def)
  have f: "fullscreenOf (resolveFullscreen (defaultTarget None) ?s) ?s = Some example_adapter"
    unfolding r by (simp add: fullscreenOf_def example_manager_def)
  have c: "supported example_adapter" "\<not> active example_adapter"
    "fullscreenOrientation ?s = Some ''landscape''" "orientation_supported ?s"
    "lock_outcome ?s = None" "trace ?s = []"
    by (simp_all add: example_adapter_def example_manager_def)
  have "enterFullscreen None ?s =
          (enter_outcome example_adapter,
           emit (FullscreenEnter (resolveFullscreen (defaultTarget None) ?s))
             (emit (OrientationLock ''landscape'') ?s))"
    using fullscreen_orientation_order [of None ?s example_adapter "''landscape''"] f c
    by simp
  then have enter: "trace (snd (enterFullscreen None ?s))
               = [OrientationLock ''landscape'', FullscreenEnter PlayerFullscreen]"
    using c(6) r by (simp add: emit_def)

  let ?a = "example_adapter\<lparr> active := True \<rparr>"
  let ?x = "example_manager\<lparr> fullscreen := ?a, orientation_locked := True \<rparr>"
  have rx: "resolveFullscreen (defaultTarget None) ?x = PlayerFullscreen"
    by (simp add: resolveFullscreen_def defaultTarget_def example_adapter_def)
  have fx: "fullscreenOf (resolveFullscreen (defaultTarget None) ?x) ?x = Some ?a"
    unfolding rx by (simp add: fullscreenOf_def)
  have cx: "supported ?a" "active ?a" "orientation_locked ?x" "unlock_outcome ?x = None"
    "trace ?x = []"
    by (simp_all add: example_adapter_def example_manager_def)
  have "exitFullscreen None ?x =
          (exit_outcome ?a,
           emit (FullscreenExit (resolveFullscreen (defaultTarget None) ?x))
             (emit OrientationUnlock ?x))"
    using fullscreen_orientation_order [of None ?x ?a] fx cx
    by simp
  then have exit: "trace (snd (exitFullscreen None ?x))
               = [OrientationUnlock, FullscreenExit PlayerFullscreen]"
    using cx(5) rx by (simp add: emit_def)

  let ?u = "example_manager\<lparr> fullscreen := example_adapter\<lparr> supported := False \<rparr> \<rparr>"
  have cu: "\<not> supported (fullscreen ?u)"
    "\<forall>p b. provider ?u = Some p \<and> provider_fullscreen p = Some b \<longrightarrow> \<not> supported b"
    by (simp_all add: example_manager_def example_provider_def)
  have none: "enterFullscreen None ?u = (Some (FullscreenNotSupportedError PreferMedia), ?u)"
    using fullscreen_orientation_order [of None ?u] cu
    by (simp add: defaultTarget_def)
  show ?thesis using f enter exit none by simp
qed

text \<open>
  C10. Without a provider the shared listener only stops the propagation of the event
  (and logs it in a development build): no handler runs, so the queue, the store and
  everything else the manager holds stay as they were. With a provider the handler
  runs, completes, and never dereferences a null provider. So no request that comes
  through the listener ever dereferences a null provider; nor does the frame callback
  that a loop request leaves behind, whenever it runs.
\<close>

theorem listener_needs_provider:
  "(provider s = None \<longrightarrow>
      listener event s =
        (None, s\<lparr> trace := trace s @ [StopPropagation event]
                            @ (if dev s \<and> has_logger s then [LogRequest event] else []) \<rparr>)
      \<and> queue (snd (listener event s)) = queue s
      \<and> store (snd (listener event s)) = store s)
   \<and> (provider s \<noteq> None \<longrightarrow>
      listener event s =
        eventHandlers (request event) event (logRequest event (emit (StopPropagation event) s)))
   \<and> fst (listener event s) = None
   \<and> (NullProviderDereference \<notin> set (trace s) \<longrightarrow>
      NullProviderDereference \<notin> set (trace (snd (listener event s)))
      \<and> NullProviderDereference \<notin> set (trace (snd (loopFrame s))))"
proof -
  let ?s1 = "logRequest event (emit (StopPropagation event) s)"
  have p1: "provider ?s1 = provider s"
    by (simp add: logRequest_def emit_def)
  have t1: "trace ?s1 = trace s @ [StopPropagation event]
                          @ (if dev s \<and> has_logger s then [LogRequest event] else [])"
    by (simp add: logRequest_def emit_def)
  have s1: "?s1 = s\<lparr> trace := trace s @ [StopPropagation event]
                            @ (if dev s \<and> has_logger s then [LogRequest event] else []) \<rparr>"
    by (simp add: logRequest_def emit_def)
  have dropped: "listener event s = (None, ?s1)" if "provider s = None"
    using that p1 by (simp add: listener_def Let_def)
  have handled: "listener event s = eventHandlers (request event) event ?s1" if "provider s \<noteq> None"
    using that p1 by (simp add: listener_def Let_def)
  have completes: "fst (listener event s) = None"
  proof (cases "provider s")
    case None
    then show ?thesis by (simp add: dropped)
  next
    case (Some p)
    then have "attached False ?s1"
      using p1 by (simp add: attached_def)
    then show ?thesis
      using handled Some handlers_attached by simp
  qed
  have safe: "NullProviderDereference \<notin> set (trace (snd (listener event s)))"
    if n: "NullProviderDereference \<notin> set (trace s)"
  proof (cases "provider s")
    case None
    then show ?thesis using n dropped t1 by simp
  next
    case (Some p)
    then have "attached True ?s1"
      using n p1 t1 by (simp add: attached_def)
    then have "attached True (snd (eventHandlers (request event) event ?s1))"
      using handlers_attached by simp
    then show ?thesis
      using handled Some by (simp add: attached_def)
  qed
  have frame: "NullProviderDereference \<notin> set (trace (snd (loopFrame s)))"
    if "NullProviderDereference \<notin> set (trace s)"
    unfolding loopFrame_trace using that by (intro play_no_null_dereference) simp
  show ?thesis
    using dropped handled completes safe frame s1 by (simp add: p1)
qed

theorem listener_needs_provider_witness:
  "provider (example_manager\<lparr> provider := None \<rparr>) = None
   \<and> listener (example_event PlayRequest) (example_manager\<lparr> provider := None \<rparr>)
       = (None, example_manager\<lparr> provider := None,
                                  trace := [StopPropagation (example_event PlayRequest)] \<rparr>)
   \<and> queue (snd (listener (example_event PlayRequest) (example_manager\<lparr> provider := None \<rparr>))) KPlay
       = None
   \<and> NullProviderDereference
       \<notin> set (trace (snd (listener (example_event PlayRequest) example_manager)))"
proof -
  let ?s = "example_manager\<lparr> provider := None \<rparr>"
  let ?ev = "example_event PlayRequest"
  have h: "provider ?s = None" by simp
  have e: "trace ?s = []" "\<not> dev ?s" "queue ?s KPlay = None" "trace example_manager = []"
    by (simp_all add: example_manager_def)
  note t = listener_needs_provider [of ?s ?ev]
  from t h have l: "listener ?ev ?s =
        (None, ?s\<lparr> trace := trace ?s @ [StopPropagation ?ev]
                            @ (if dev ?s \<and> has_logger ?s then [LogRequest ?ev] else []) \<rparr>)"
    by blast
  from t h have q: "queue (snd (listener ?ev ?s)) = queue ?s"
    by blast
  have l': "listener ?ev ?s = (None, ?s\<lparr> trace := [StopPropagation ?ev] \<rparr>)"
    using l e(1,2) by simp
  have n: "NullProviderDereference \<notin> set (trace (snd (listener ?ev example_manager)))"
    using listener_needs_provider [of example_manager ?ev] e(4) by simp
  show ?thesis
    using h l' q e(3) n by simp
qed

section \<open>The HLS lifecycle: the claims\<close>

text \<open>
  C4. A fatal network error calls \<open>startLoad\<close> on the published instance and leaves it
  published; a fatal media error calls \<open>recoverMediaError\<close> on it and leaves it
  published; any other fatal error destroys it and clears the published reference. An
  error that is not fatal does none of this. (Before any of it, a development build
  with a logger logs the error.)
\<close>

theorem fatal_error_recovery:
  "(fatal d \<and> error_type d = ''networkError'' \<longrightarrow>
      published (onError eventType d s) = published s
      \<and> hls_trace (onError eventType d s) =
          hls_trace s
          @ (if hls_dev s \<and> hls_has_logger s then [LogErrorGroup eventType] else [])
          @ (case published s of None \<Rightarrow> [] | Some i \<Rightarrow> [StartLoad (instance_id i)]))
   \<and> (fatal d \<and> error_type d = ''mediaError'' \<longrightarrow>
      published (onError eventType d s) = published s
      \<and> hls_trace (onError eventType d s) =
          hls_trace s
          @ (if hls_dev s \<and> hls_has_logger s then [LogErrorGroup eventType] else [])
          @ (case published s of None \<Rightarrow> [] | Some i \<Rightarrow> [RecoverMediaError (instance_id i)]))
   \<and> (fatal d \<and> error_type d \<noteq> ''networkError'' \<and> error_type d \<noteq> ''mediaError'' \<longrightarrow>
      published (onError eventType d s) = None
      \<and> hls_trace (onError eventType d s) =
          hls_trace s
          @ (if hls_dev s \<and> hls_has_logger s then [LogErrorGroup eventType] else [])
          @ (case published s of None \<Rightarrow> [] | Some i \<Rightarrow> [Destroy (instance_id i)]))
   \<and> (\<not> fatal d \<longrightarrow>
      published (onError eventType d s) = published s
      \<and> hls_trace (onError eventType d s) =
          hls_trace s
          @ (if hls_dev s \<and> hls_has_logger s then [LogErrorGroup eventType] else []))"
  by (auto simp: onError_def onInstance_def hls_emit_def Let_def split: option.splits)

theorem fatal_error_recovery_witness:
  "onError ''hlsError'' \<lparr> fatal = True, error_type = ''networkError'' \<rparr> example_hls
     = example_hls\<lparr> hls_trace := [StartLoad 1] \<rparr>
   \<and> onError ''hlsError'' \<lparr> fatal = True, error_type = ''mediaError'' \<rparr> example_hls
     = example_hls\<lparr> hls_trace := [RecoverMediaError 1] \<rparr>
   \<and> onError ''hlsError'' \<lparr> fatal = True, error_type = ''otherError'' \<rparr> example_hls
     = example_hls\<lparr> published := None, hls_trace := [Destroy 1] \<rparr>
   \<and> onError ''hlsError'' \<lparr> fatal = False, error_type = ''networkError'' \<rparr> example_hls
     = example_hls"
proof -
  let ?n = "\<lparr> fatal = True, error_type = ''networkError'' \<rparr>"
  let ?m = "\<lparr> fatal = True, error_type = ''mediaError'' \<rparr>"
  let ?o = "\<lparr> fatal = True, error_type = ''otherError'' \<rparr>"
  let ?w = "\<lparr> fatal = False, error_type = ''networkError'' \<rparr>"
  have hn: "fatal ?n \<and> error_type ?n = ''networkError''" by simp
  have hm: "fatal ?m \<and> error_type ?m = ''mediaError''" by simp
  have ho: "fatal ?o \<and> error_type ?o \<noteq> ''networkError'' \<and> error_type ?o \<noteq> ''mediaError''" by simp
  have hw: "\<not> fatal ?w" by simp
  have e: "published example_hls = Some \<lparr> instance_id = 1, has_media = True \<rparr>"
    "hls_trace example_hls = []" "\<not> hls_dev example_hls"
    by (simp_all add: example_hls_def)
  from fatal_error_recovery [of ?n "''hlsError''" example_hls] hn
  have n: "published (onError ''hlsError'' ?n example_hls) = published example_hls"
    "hls_trace (onError ''hlsError'' ?n example_hls) = [StartLoad 1]"
    using e by simp_all
  from fatal_error_recovery [of ?m "''hlsError''" example_hls] hm
  have m: "published (onError ''hlsError'' ?m example_hls) = published example_hls"
    "hls_trace (onError ''hlsError'' ?m example_hls) = [RecoverMediaError 1]"
    using e by simp_all
  from fatal_error_recovery [of ?o "''hlsError''" example_hls] ho
  have o: "published (onError ''hlsError'' ?o example_hls) = None"
    "hls_trace (onError ''hlsError'' ?o example_hls) = [Destroy 1]"
    using e by simp_all
  from fatal_error_recovery [of ?w "''hlsError''" example_hls] hw
  have w: "published (onError ''hlsError'' ?w example_hls) = published example_hls"
    "hls_trace (onError ''hlsError'' ?w example_hls) = hls_trace example_hls"
    using e by simp_all
  have same: "store_canPlay (onError t d s) = store_canPlay s
      \<and> hls_dev (onError t d s) = hls_dev s \<and> hls_has_logger (onError t d s) = hls_has_logger s"
    for t d s
    by (simp add: onError_def onInstance_def hls_emit_def Let_def split: option.splits)
  have "onError ''hlsError'' ?n example_hls = example_hls\<lparr> hls_trace := [StartLoad 1] \<rparr>"
    using n same [of "''hlsError''" ?n example_hls] by (intro hls.equality) simp_all
  moreover have "onError ''hlsError'' ?m example_hls = example_hls\<lparr> hls_trace := [RecoverMediaError 1] \<rparr>"
    using m same [of "''hlsError''" ?m example_hls] by (intro hls.equality) simp_all
  moreover have "onError ''hlsError'' ?o example_hls
                   = example_hls\<lparr> published := None, hls_trace := [Destroy 1] \<rparr>"
    using o same [of "''hlsError''" ?o example_hls] by (intro hls.equality) simp_all
  moreover have "onError ''hlsError'' ?w example_hls = example_hls"
    using w same [of "''hlsError''" ?w example_hls] by (intro hls.equality) simp_all
  ultimately show ?thesis by simp
qed

text \<open>
  C8, as stated, fails: a live playlist with a finite total duration whose type is
  not \<open>EVENT\<close> is classified \<open>"live"\<close>, not \<open>"live:dvr"\<close>.
\<close>

theorem stream_type_counterexample:
  "\<not> store_canPlay example_hls
   \<and> isFinite (Fin 30)
   \<and> hls_trace (snd (onLevelLoaded
         \<lparr> details_type = None, details_live = True, totalduration = Fin 30 \<rparr> example_hls))
       = [DispatchStreamTypeChange ''live'', DispatchDurationChange (Fin 30),
          MediaDispatchCanPlay 1]"
  by (simp add: example_hls_def onLevelLoaded_def streamType_def hls_emit_def Let_def)

text \<open>
  C8, amended. Before can-play, a level-loaded event dispatches a stream-type change
  and then a duration change; the stream type is \<open>"live:dvr"\<close> exactly when the
  playlist is live, its type is \<open>EVENT\<close> and its total duration is finite, \<open>"live"\<close>
  when it is live otherwise, and \<open>"on-demand"\<close> when it is not live. After can-play a
  level-loaded event changes nothing.
\<close>

theorem level_loaded_stream_type:
  "(\<not> store_canPlay s \<longrightarrow>
      hls_trace (snd (onLevelLoaded d s)) =
        hls_trace s
        @ [DispatchStreamTypeChange
             (if details_live d \<and> details_type d = Some ''EVENT'' \<and> isFinite (totalduration d)
              then ''live:dvr''
              else if details_live d then ''live'' else ''on-demand''),
           DispatchDurationChange (totalduration d)]
        @ (case published s of
             None \<Rightarrow> []
           | Some i \<Rightarrow> if has_media i then [MediaDispatchCanPlay (instance_id i)] else []))
   \<and> (store_canPlay s \<longrightarrow> onLevelLoaded d s = (None, s))"
  by (auto simp: onLevelLoaded_def streamType_def hls_emit_def Let_def split: option.splits)

theorem level_loaded_stream_type_witness:
  "(let d = \<lparr> details_type = Some ''EVENT'', details_live = True, totalduration = Fin 30 \<rparr>
    in \<not> store_canPlay example_hls
     \<and> hls_trace (snd (onLevelLoaded d example_hls))
         = [DispatchStreamTypeChange ''live:dvr'', DispatchDurationChange (Fin 30),
            MediaDispatchCanPlay 1]
     \<and> onLevelLoaded d (example_hls\<lparr> store_canPlay := True \<rparr>)
         = (None, example_hls\<lparr> store_canPlay := True \<rparr>))"
proof -
  let ?d = "\<lparr> details_type = Some ''EVENT'', details_live = True, totalduration = Fin 30 \<rparr>"
  have h: "\<not> store_canPlay example_hls" "store_canPlay (example_hls\<lparr> store_canPlay := True \<rparr>)"
    by (simp_all add: example_hls_def)
  have e: "published example_hls = Some \<lparr> instance_id = 1, has_media = True \<rparr>"
    "hls_trace example_hls = []"
    by (simp_all add: example_hls_def)
  from level_loaded_stream_type [of example_hls ?d] h(1)
  have a: "hls_trace (snd (onLevelLoaded ?d example_hls))
         = [DispatchStreamTypeChange ''live:dvr'', DispatchDurationChange (Fin 30),
            MediaDispatchCanPlay 1]"
    using e by simp
  from level_loaded_stream_type [of "example_hls\<lparr> store_canPlay := True \<rparr>" ?d] h(2)
  have b: "onLevelLoaded ?d (example_hls\<lparr> store_canPlay := True \<rparr>)
         = (None, example_hls\<lparr> store_canPlay := True \<rparr>)"
    by blast
  show ?thesis unfolding Let_def using h(1) a b by simp
qed

end
